theory Spec2Isabelle
  imports Complex_Main "HOL-Library.AList"
begin

section \<open>Numbers, strings and time\<close>

text \<open>
  The engines compute with JavaScript numbers. They are modelled as \<^typ>\<open>real\<close>: exact
  arithmetic, no rounding, no overflow, no signed zero. Timestamps (milliseconds since the
  epoch) and counters are \<^typ>\<open>int\<close> and \<^typ>\<open>nat\<close>. Where the source can divide by
  zero in a value that it returns, the quotient is a \<open>jsnum\<close>, which has the three
  non-finite values of the language; an indicator that may be \<open>NaN\<close> is a
  \<^typ>\<open>real option\<close> with \<open>None\<close> for \<open>NaN\<close>.
\<close>

datatype jsnum = Fin real | PosInf | NegInf | NaN

definition js_div :: "real \<Rightarrow> real \<Rightarrow> jsnum" where
  "js_div x y =
     (if y \<noteq> 0 then Fin (x / y)
      else if 0 < x then PosInf else if x < 0 then NegInf else NaN)"

text \<open>\<open>(x / y) * 100\<close>, the form of every percentage of the results.\<close>

definition percent_of :: "real \<Rightarrow> real \<Rightarrow> jsnum" where
  "percent_of x y = (case js_div x y of Fin q \<Rightarrow> Fin (q * 100) | v \<Rightarrow> v)"

text \<open>
  Decimal printing of a counter or a year, as template literals and \<open>String\<close> do for
  integers.
\<close>

definition digit_char :: "nat \<Rightarrow> char" where
  "digit_char d = char_of (48 + d)"

fun decimalDigits :: "nat \<Rightarrow> string \<Rightarrow> string" where
  "decimalDigits n acc =
     (if n < 10 then digit_char n # acc
      else decimalDigits (n div 10) (digit_char (n mod 10) # acc))"

definition showNat :: "nat \<Rightarrow> string" where
  "showNat n = decimalDigits n []"

definition showInt :: "int \<Rightarrow> string" where
  "showInt i = (if 0 \<le> i then showNat (nat i) else CHR ''-'' # showNat (nat (- i)))"

text \<open>The em dash of the exit reasons, as its three UTF-8 bytes.\<close>

definition emdash :: string where
  "emdash = [char_of (226::nat), char_of (128::nat), char_of (148::nat)]"

section \<open>Data model (types.ts)\<close>

datatype Side = Long | Short

datatype Status = StatusOpen | StatusClosed

text \<open>
  Of the indicator snapshot the engine reads \<open>atr\<close> only; the other indicators are read by
  strategies, which are parameters here and are arbitrary functions of the candle series.
\<close>

record Indicators =
  atr :: "real option"

record Candle =
  timestamp :: int
  c_open :: real
  high :: real
  low :: real
  close :: real
  volume :: real
  turnover :: real

record CandleWithIndicators = Candle +
  indicators :: Indicators

record EntrySignal =
  enter :: bool
  es_stopLoss :: real
  es_takeProfit :: real
  es_takeProfit2 :: "real option"
  es_reason :: string

record ExitSignal =
  exit :: bool
  xs_reason :: string

type_synonym MultiTimeframeData = "string \<rightharpoonup> CandleWithIndicators list"

record PartialClose =
  pc_price :: real
  pc_size :: real
  pc_pnl :: real
  pc_timestamp :: int
  pc_reason :: string

record Position =
  pos_id :: string
  symbol :: string
  side :: Side
  entryPrice :: real
  pos_size :: real
  leverage :: real
  stopLoss :: real
  takeProfit :: real
  takeProfit2 :: "real option"
  entryTime :: int
  commission :: real
  status :: Status
  reason :: string
  partialCloses :: "PartialClose list"
  trailingStop :: "real option"
  breakeven :: bool
  tp1Hit :: bool

record Trade = Position +
  exitTime :: int
  exitPrice :: real
  pnl :: real
  exitReason :: string
  duration :: int

record Strategy =
  name :: string
  requiredTimeframes :: "string list option"
  shouldEnterLong :: "CandleWithIndicators list \<Rightarrow> nat \<Rightarrow> MultiTimeframeData option \<Rightarrow> EntrySignal"
  shouldEnterShort :: "CandleWithIndicators list \<Rightarrow> nat \<Rightarrow> MultiTimeframeData option \<Rightarrow> EntrySignal"
  shouldExit :: "Position \<Rightarrow> CandleWithIndicators list \<Rightarrow> nat \<Rightarrow> MultiTimeframeData option \<Rightarrow> ExitSignal"

record BacktestConfig =
  startingCapital :: real
  cfg_leverage :: real
  commissionRate :: real
  slippageRate :: real
  riskPerTrade :: real
  maxConcurrentPositions :: real
  symbols :: "string list"
  timeframe :: string
  strategy :: Strategy

record EquityPoint =
  ep_timestamp :: int
  equity :: real

record MonthlyReturn =
  month :: string
  mr_pnl :: real
  mr_pnlPercent :: jsnum
  mr_trades :: nat
  mr_winRate :: real

record SymbolBreakdown =
  sb_symbol :: string
  sb_trades :: nat
  sb_pnl :: real
  sb_winRate :: real
  sb_profitFactor :: jsnum

record BacktestResult =
  strategyName :: string
  r_leverage :: real
  trades :: "Trade list"
  totalTrades :: nat
  wins :: nat
  losses :: nat
  winRate :: real
  totalPnl :: real
  totalPnlPercent :: jsnum
  profitFactor :: jsnum
  maxDrawdown :: real
  maxDrawdownPercent :: jsnum
  avgWin :: real
  avgLoss :: real
  bestTrade :: "Trade option"
  worstTrade :: "Trade option"
  avgTradeDuration :: real
  sharpeRatio :: real
  monthlyReturns :: "MonthlyReturn list"
  symbolBreakdown :: "SymbolBreakdown list"
  r_equityCurve :: "EquityPoint list"
  finalEquity :: real
  r_startingCapital :: real

section \<open>Position helpers (backtester.ts)\<close>

definition nextPositionId :: "string \<Rightarrow> nat \<Rightarrow> string \<times> nat" where
  "nextPositionId symbol0 positionCounter0 = (symbol0 @ ''-'' @ showNat positionCounter0, Suc positionCounter0)"

definition remainingSize :: "'a Position_scheme \<Rightarrow> real" where
  "remainingSize position =
     (let closed = foldl (\<lambda>sum pc. sum + pc_size pc) 0 (partialCloses position)
      in pos_size position - closed)"

definition partialPnl :: "'a Position_scheme \<Rightarrow> real" where
  "partialPnl position = foldl (\<lambda>sum pc. sum + pc_pnl pc) 0 (partialCloses position)"

definition unrealisedPnl :: "Position \<Rightarrow> real \<Rightarrow> real" where
  "unrealisedPnl position currentPrice =
     (let remSize = remainingSize position;
          raw = (if side position = Long
                 then ((currentPrice - entryPrice position) / entryPrice position) * remSize
                 else ((entryPrice position - currentPrice) / entryPrice position) * remSize)
      in raw - commission position + partialPnl position)"

definition closePosition :: "Position \<Rightarrow> real \<Rightarrow> int \<Rightarrow> string \<Rightarrow> real \<Rightarrow> real \<Rightarrow> Trade" where
  "closePosition position exitPrice0 exitTime0 exitReason0 slippageRate0 commissionRate0 =
     (let slippedExit = (if side position = Long
                         then exitPrice0 * (1 - slippageRate0)
                         else exitPrice0 * (1 + slippageRate0));
          remSize = remainingSize position;
          exitCommission = remSize * commissionRate0;
          totalCommission = commission position + exitCommission;
          pnl0 = (if side position = Long
                  then ((slippedExit - entryPrice position) / entryPrice position) * remSize
                       - totalCommission
                  else ((entryPrice position - slippedExit) / entryPrice position) * remSize
                       - totalCommission);
          pnl1 = pnl0 + partialPnl position
      in Position.extend
           (position\<lparr>status := StatusClosed, commission := totalCommission\<rparr>)
           (Trade.fields exitTime0 slippedExit pnl1 exitReason0 (exitTime0 - entryTime position)))"

text \<open>
  \<open>partialClosePosition\<close> mutates the position (it appends the partial close and adds its
  commission); the model returns the record it builds together with the updated position.
\<close>

definition partialClosePosition ::
  "Position \<Rightarrow> real \<Rightarrow> real \<Rightarrow> int \<Rightarrow> string \<Rightarrow> real \<Rightarrow> real \<Rightarrow> PartialClose \<times> Position" where
  "partialClosePosition position price fraction timestamp0 reason0 slippageRate0 commissionRate0 =
     (let closeSize = remainingSize position * fraction;
          slippedPrice = (if side position = Long
                          then price * (1 - slippageRate0)
                          else price * (1 + slippageRate0));
          commission0 = closeSize * commissionRate0;
          pnl0 = (if side position = Long
                  then ((slippedPrice - entryPrice position) / entryPrice position) * closeSize
                       - commission0
                  else ((entryPrice position - slippedPrice) / entryPrice position) * closeSize
                       - commission0);
          pc = \<lparr>pc_price = slippedPrice, pc_size = closeSize, pc_pnl = pnl0,
                pc_timestamp = timestamp0, pc_reason = reason0\<rparr>
      in (pc, position\<lparr>partialCloses := partialCloses position @ [pc],
                        commission := commission position + commission0\<rparr>))"

section \<open>Exit rule cascade (runBacktest, step 4a)\<close>

text \<open>
  One pass of the body of the exit loop over a position either closes it (a trade is
  pushed and the position spliced out of the ledger) or leaves it open, possibly mutated.
\<close>

datatype Outcome = Closed Trade | Remains Position

definition stopLossRule :: "CandleWithIndicators \<Rightarrow> real \<Rightarrow> real \<Rightarrow> Position \<Rightarrow> Trade option" where
  "stopLossRule candle slippageRate0 commissionRate0 position =
     (if side position = Long \<and> low candle \<le> stopLoss position
      then Some (closePosition position (stopLoss position) (timestamp candle)
                   ''Stop loss hit'' slippageRate0 commissionRate0)
      else if side position = Short \<and> high candle \<ge> stopLoss position
      then Some (closePosition position (stopLoss position) (timestamp candle)
                   ''Stop loss hit'' slippageRate0 commissionRate0)
      else None)"

definition takeProfit1Rule :: "CandleWithIndicators \<Rightarrow> real \<Rightarrow> real \<Rightarrow> Position \<Rightarrow> Outcome" where
  "takeProfit1Rule candle slippageRate0 commissionRate0 position =
     (if \<not> tp1Hit position then
        (let hit = ((side position = Long \<and> high candle \<ge> takeProfit position) \<or>
                    (side position = Short \<and> low candle \<le> takeProfit position))
         in if hit then
              (let position1 = snd (partialClosePosition position (takeProfit position) (1 / 2)
                                      (timestamp candle)
                                      (''TP1 hit '' @ emdash @ '' partial close 50%'')
                                      slippageRate0 commissionRate0);
                   position2 = position1\<lparr>tp1Hit := True\<rparr>
               in if takeProfit2 position2 \<noteq> None
                  then Remains (position2\<lparr>stopLoss := entryPrice position2, breakeven := True\<rparr>)
                  else Closed (closePosition position2 (takeProfit position2) (timestamp candle)
                                 (''TP1 hit '' @ emdash @ '' full close'')
                                 slippageRate0 commissionRate0))
            else Remains position)
      else Remains position)"

definition takeProfit2Rule :: "CandleWithIndicators \<Rightarrow> real \<Rightarrow> real \<Rightarrow> Position \<Rightarrow> Trade option" where
  "takeProfit2Rule candle slippageRate0 commissionRate0 position =
     (case takeProfit2 position of
        None \<Rightarrow> None
      | Some tp2 \<Rightarrow>
          if tp1Hit position \<and>
             ((side position = Long \<and> high candle \<ge> tp2) \<or>
              (side position = Short \<and> low candle \<le> tp2))
          then Some (closePosition position tp2 (timestamp candle)
                       (''TP2 hit '' @ emdash @ '' full close'') slippageRate0 commissionRate0)
          else None)"

definition strategyExitRule ::
  "Strategy \<Rightarrow> CandleWithIndicators list \<Rightarrow> nat \<Rightarrow> MultiTimeframeData option \<Rightarrow> real \<Rightarrow> real
     \<Rightarrow> Position \<Rightarrow> Trade option" where
  "strategyExitRule strat candles candleIdx multiTfData slippageRate0 commissionRate0 position =
     (let candle = candles ! candleIdx;
          exitSignal = shouldExit strat position candles candleIdx multiTfData
      in if exit exitSignal
         then Some (closePosition position (close candle) (timestamp candle)
                      (xs_reason exitSignal) slippageRate0 commissionRate0)
         else None)"

definition trailingStopRule :: "CandleWithIndicators \<Rightarrow> Position \<Rightarrow> Position" where
  "trailingStopRule candle position =
     (case atr (indicators candle) of
        None \<Rightarrow> position
      | Some a \<Rightarrow>
          if a > 0 then
            (if side position = Long then
               (let profitDistance = close candle - entryPrice position
                in if profitDistance \<ge> a then
                     (let newTrail = entryPrice position + (1 / 2) * a;
                          trail = (case trailingStop position of
                                     None \<Rightarrow> newTrail
                                   | Some t \<Rightarrow> if newTrail > t then newTrail else t);
                          position1 = position\<lparr>trailingStop := Some trail\<rparr>
                      in if trail > stopLoss position1
                         then position1\<lparr>stopLoss := trail\<rparr> else position1)
                   else position)
             else
               (let profitDistance = entryPrice position - close candle
                in if profitDistance \<ge> a then
                     (let newTrail = entryPrice position - (1 / 2) * a;
                          trail = (case trailingStop position of
                                     None \<Rightarrow> newTrail
                                   | Some t \<Rightarrow> if newTrail < t then newTrail else t);
                          position1 = position\<lparr>trailingStop := Some trail\<rparr>
                      in if trail < stopLoss position1
                         then position1\<lparr>stopLoss := trail\<rparr> else position1)
                   else position))
          else position)"

definition checkExits ::
  "BacktestConfig \<Rightarrow> CandleWithIndicators list \<Rightarrow> nat \<Rightarrow> MultiTimeframeData option
     \<Rightarrow> Position \<Rightarrow> Outcome" where
  "checkExits cfg candles candleIdx multiTfData position =
     (let candle = candles ! candleIdx;
          sl = slippageRate cfg;
          cm = commissionRate cfg
      in case stopLossRule candle sl cm position of
           Some t \<Rightarrow> Closed t
         | None \<Rightarrow>
            (case takeProfit1Rule candle sl cm position of
               Closed t \<Rightarrow> Closed t
             | Remains position1 \<Rightarrow>
                (case takeProfit2Rule candle sl cm position1 of
                   Some t \<Rightarrow> Closed t
                 | None \<Rightarrow>
                    (case strategyExitRule (strategy cfg) candles candleIdx multiTfData sl cm position1 of
                       Some t \<Rightarrow> Closed t
                     | None \<Rightarrow> Remains (trailingStopRule candle position1)))))"

section \<open>The simulation state and the main loop (runBacktest, steps 1 to 4)\<close>

text \<open>
  The local variables of \<open>runBacktest\<close> that the loop mutates, together with the
  module-level \<open>positionCounter\<close>.
\<close>

record State =
  openPositions :: "Position list"
  completedTrades :: "Trade list"
  equityCurve :: "EquityPoint list"
  cur_equity :: real
  positionCounter :: nat
  candleCount :: nat

text \<open>
  The collaborators outside the engines: the market-data provider (candles and funding
  rates read from disk, \<open>None\<close> for \<open>null\<close>), the indicator engine (which returns one
  enriched candle per candle), the platform's string collation, and the wall clock read by
  \<open>Date.now()\<close>.
\<close>

record FundingRate =
  fr_symbol :: string
  fundingRate :: real
  fundingRateTimestamp :: int

record Env =
  loadCandles :: "string \<Rightarrow> string \<Rightarrow> Candle list option"
  loadFundingRates :: "string \<Rightarrow> FundingRate list option"
  calculateIndicators :: "Candle list \<Rightarrow> CandleWithIndicators list"
  localeCompare :: "string \<Rightarrow> string \<Rightarrow> int"
  dateNow :: int

text \<open>
  The body of the loop \<open>for (p = openPositions.length - 1; p >= 0; p--)\<close> at index \<open>p\<close>,
  and the loop itself, counting down.
\<close>

definition exitStep ::
  "BacktestConfig \<Rightarrow> string \<Rightarrow> CandleWithIndicators list \<Rightarrow> nat \<Rightarrow> MultiTimeframeData option
     \<Rightarrow> nat \<Rightarrow> State \<Rightarrow> State" where
  "exitStep cfg symbol0 candles candleIdx multiTfData p s =
     (let position = openPositions s ! p
      in if symbol position \<noteq> symbol0 then s
         else (case checkExits cfg candles candleIdx multiTfData position of
                 Closed t \<Rightarrow>
                   s\<lparr>completedTrades := completedTrades s @ [t],
                     openPositions := take p (openPositions s) @ drop (Suc p) (openPositions s)\<rparr>
               | Remains position1 \<Rightarrow>
                   s\<lparr>openPositions := (openPositions s)[p := position1]\<rparr>))"

fun exitLoop ::
  "BacktestConfig \<Rightarrow> string \<Rightarrow> CandleWithIndicators list \<Rightarrow> nat \<Rightarrow> MultiTimeframeData option
     \<Rightarrow> nat \<Rightarrow> State \<Rightarrow> State" where
  "exitLoop cfg symbol0 candles candleIdx multiTfData 0 s = s"
| "exitLoop cfg symbol0 candles candleIdx multiTfData (Suc p) s =
     exitLoop cfg symbol0 candles candleIdx multiTfData p
       (exitStep cfg symbol0 candles candleIdx multiTfData p s)"

text \<open>
  The body of the loop over the entry signals after its \<open>break\<close> test: the two
  \<open>continue\<close> branches leave the state as it is.
\<close>

definition openPosition ::
  "BacktestConfig \<Rightarrow> string \<Rightarrow> CandleWithIndicators \<Rightarrow> EntrySignal \<times> Side \<Rightarrow> State \<Rightarrow> State" where
  "openPosition cfg symbol0 candle sg s =
     (let signal = fst sg;
          side0 = snd sg;
          riskAmount = cur_equity s * riskPerTrade cfg;
          entryPrice0 = (if side0 = Long
                         then close candle * (1 + slippageRate cfg)
                         else close candle * (1 - slippageRate cfg));
          distanceToSL = \<bar>entryPrice0 - es_stopLoss signal\<bar>
      in if distanceToSL = 0 then s
         else
          (let positionSize0 = riskAmount / (distanceToSL / entryPrice0);
               maxSize = cur_equity s * cfg_leverage cfg;
               positionSize = (if positionSize0 > maxSize then maxSize else positionSize0)
           in if positionSize \<le> 0 then s
              else
               (let entryCommission = positionSize * commissionRate cfg;
                    idc = nextPositionId symbol0 (positionCounter s);
                    position =
                      \<lparr>pos_id = fst idc, symbol = symbol0, side = side0,
                       entryPrice = entryPrice0, pos_size = positionSize,
                       leverage = cfg_leverage cfg, stopLoss = es_stopLoss signal,
                       takeProfit = es_takeProfit signal, takeProfit2 = es_takeProfit2 signal,
                       entryTime = timestamp candle, commission = entryCommission,
                       status = StatusOpen, reason = es_reason signal, partialCloses = [],
                       trailingStop = None, breakeven = False, tp1Hit = False\<rparr>
                in s\<lparr>openPositions := openPositions s @ [position],
                     positionCounter := snd idc\<rparr>)))"

fun enterLoop ::
  "BacktestConfig \<Rightarrow> string \<Rightarrow> CandleWithIndicators \<Rightarrow> (EntrySignal \<times> Side) list \<Rightarrow> State \<Rightarrow> State" where
  "enterLoop cfg symbol0 candle [] s = s"
| "enterLoop cfg symbol0 candle (sg # signals) s =
     (if real (length (openPositions s)) \<ge> maxConcurrentPositions cfg then s
      else enterLoop cfg symbol0 candle signals (openPosition cfg symbol0 candle sg s))"

definition checkEntries ::
  "BacktestConfig \<Rightarrow> string \<Rightarrow> CandleWithIndicators list \<Rightarrow> nat \<Rightarrow> MultiTimeframeData option
     \<Rightarrow> State \<Rightarrow> State" where
  "checkEntries cfg symbol0 candles candleIdx multiTfData s =
     (if real (length (openPositions s)) < maxConcurrentPositions cfg then
        (let longSignal = shouldEnterLong (strategy cfg) candles candleIdx multiTfData;
             shortSignal = shouldEnterShort (strategy cfg) candles candleIdx multiTfData;
             signals = (if enter longSignal then [(longSignal, Long)] else []) @
                       (if enter shortSignal then [(shortSignal, Short)] else [])
         in enterLoop cfg symbol0 (candles ! candleIdx) signals s)
      else s)"

text \<open>
  Step 2: the insertion-ordered \<open>Map\<close> from symbol to enriched candles is an association
  list (\<open>AList.update\<close> replaces in place or appends, as \<open>Map.set\<close> does); symbols without
  candles are skipped. The multi-timeframe data is loaded in the same loop.
\<close>

definition loadMultiTf ::
  "Env \<Rightarrow> BacktestConfig \<Rightarrow> string \<Rightarrow> CandleWithIndicators list \<Rightarrow> MultiTimeframeData option" where
  "loadMultiTf env cfg symbol0 withIndicators =
     (case requiredTimeframes (strategy cfg) of
        None \<Rightarrow> None
      | Some tfs \<Rightarrow>
          if tfs = [] then None
          else Some (foldl (\<lambda>multiTf tf.
                        if tf = timeframe cfg then multiTf
                        else (case loadCandles env symbol0 tf of
                                None \<Rightarrow> multiTf
                              | Some tfCandles \<Rightarrow>
                                  if tfCandles = [] then multiTf
                                  else multiTf(tf \<mapsto> calculateIndicators env tfCandles)))
                      [timeframe cfg \<mapsto> withIndicators] tfs))"

definition loadData ::
  "Env \<Rightarrow> BacktestConfig
     \<Rightarrow> (string \<times> CandleWithIndicators list) list \<times> (string \<rightharpoonup> MultiTimeframeData)" where
  "loadData env cfg =
     foldl (\<lambda>(symbolDataMap, multiTfBySymbol) symbol0.
              case loadCandles env symbol0 (timeframe cfg) of
                None \<Rightarrow> (symbolDataMap, multiTfBySymbol)
              | Some rawCandles \<Rightarrow>
                  if rawCandles = [] then (symbolDataMap, multiTfBySymbol)
                  else (let withIndicators = calculateIndicators env rawCandles
                        in (AList.update symbol0 withIndicators symbolDataMap,
                            (case loadMultiTf env cfg symbol0 withIndicators of
                               None \<Rightarrow> multiTfBySymbol
                             | Some multiTf \<Rightarrow> multiTfBySymbol(symbol0 \<mapsto> multiTf)))))
       ([], Map.empty) (symbols cfg)"

text \<open>Step 3: the merged timeline and the per-symbol map from timestamp to candle index.\<close>

definition sortedTimestamps :: "(string \<times> CandleWithIndicators list) list \<Rightarrow> int list" where
  "sortedTimestamps symbolDataMap =
     sort (remdups (concat (map (\<lambda>sc. map timestamp (snd sc)) symbolDataMap)))"

definition buildIndexMap :: "CandleWithIndicators list \<Rightarrow> (int \<rightharpoonup> nat)" where
  "buildIndexMap candles =
     foldl (\<lambda>imap i. imap(timestamp (candles ! i) \<mapsto> i)) Map.empty [0..<length candles]"

definition initialState :: "BacktestConfig \<Rightarrow> State" where
  "initialState cfg =
     \<lparr>openPositions = [], completedTrades = [], equityCurve = [],
      cur_equity = startingCapital cfg, positionCounter = 0, candleCount = 0\<rparr>"

definition processSymbol ::
  "BacktestConfig \<Rightarrow> (string \<rightharpoonup> MultiTimeframeData) \<Rightarrow> int \<Rightarrow> State
     \<Rightarrow> string \<times> CandleWithIndicators list \<Rightarrow> State" where
  "processSymbol cfg multiTfBySymbol ts s sc =
     (let symbol0 = fst sc; candles = snd sc
      in case buildIndexMap candles ts of
           None \<Rightarrow> s
         | Some candleIdx \<Rightarrow>
             (let multiTfData = multiTfBySymbol symbol0;
                  s1 = exitLoop cfg symbol0 candles candleIdx multiTfData
                         (length (openPositions s)) s
              in checkEntries cfg symbol0 candles candleIdx multiTfData s1))"

definition recordEquity ::
  "BacktestConfig \<Rightarrow> (string \<times> CandleWithIndicators list) list \<Rightarrow> int \<Rightarrow> int \<Rightarrow> State \<Rightarrow> State" where
  "recordEquity cfg symbolDataMap lastTs ts s0 =
     (let s = s0\<lparr>candleCount := Suc (candleCount s0)\<rparr>
      in if candleCount s mod 100 = 0 \<or> candleCount s = 1 \<or> ts = lastTs then
           (let realisedPnl = foldl (\<lambda>sum t. sum + pnl t) 0 (completedTrades s);
                unrealised =
                  foldl (\<lambda>u pos.
                           case map_of symbolDataMap (symbol pos) of
                             None \<Rightarrow> u
                           | Some candles \<Rightarrow>
                               (case buildIndexMap candles ts of
                                  None \<Rightarrow> u
                                | Some idx \<Rightarrow> u + unrealisedPnl pos (close (candles ! idx))))
                        0 (openPositions s);
                equity0 = startingCapital cfg + realisedPnl + unrealised
            in s\<lparr>cur_equity := equity0,
                 equityCurve := equityCurve s @ [\<lparr>ep_timestamp = ts, equity = equity0\<rparr>]\<rparr>)
         else s)"

definition processTimestamp ::
  "BacktestConfig \<Rightarrow> (string \<times> CandleWithIndicators list) list
     \<Rightarrow> (string \<rightharpoonup> MultiTimeframeData) \<Rightarrow> int \<Rightarrow> State \<Rightarrow> int \<Rightarrow> State" where
  "processTimestamp cfg symbolDataMap multiTfBySymbol lastTs s ts =
     recordEquity cfg symbolDataMap lastTs ts
       (foldl (processSymbol cfg multiTfBySymbol ts) s symbolDataMap)"

definition simulate ::
  "BacktestConfig \<Rightarrow> (string \<times> CandleWithIndicators list) list
     \<Rightarrow> (string \<rightharpoonup> MultiTimeframeData) \<Rightarrow> State" where
  "simulate cfg symbolDataMap multiTfBySymbol =
     (let timeline = sortedTimestamps symbolDataMap
      in foldl (processTimestamp cfg symbolDataMap multiTfBySymbol (last timeline))
           (initialState cfg) timeline)"

text \<open>Step 5: the positions still open are closed at the last candle of their symbol.\<close>

definition forceCloseStep ::
  "BacktestConfig \<Rightarrow> (string \<times> CandleWithIndicators list) list \<Rightarrow> Trade list \<Rightarrow> Position \<Rightarrow> Trade list" where
  "forceCloseStep cfg symbolDataMap closedTrades position =
     (case map_of symbolDataMap (symbol position) of
        None \<Rightarrow> closedTrades
      | Some candles \<Rightarrow>
          if candles = [] then closedTrades
          else (let lastCandle = last candles
                in closedTrades @
                     [closePosition position (close lastCandle) (timestamp lastCandle)
                        (''End of backtest '' @ emdash @ '' forced close'')
                        (slippageRate cfg) (commissionRate cfg)]))"

definition forceClose ::
  "BacktestConfig \<Rightarrow> (string \<times> CandleWithIndicators list) list \<Rightarrow> State \<Rightarrow> Trade list" where
  "forceClose cfg symbolDataMap s =
     foldl (forceCloseStep cfg symbolDataMap) (completedTrades s) (openPositions s)"

definition finalEquityCurve ::
  "Env \<Rightarrow> BacktestConfig \<Rightarrow> int list \<Rightarrow> Trade list \<Rightarrow> EquityPoint list \<Rightarrow> EquityPoint list" where
  "finalEquityCurve env cfg timeline allTrades curve =
     (let finalRealisedPnl = foldl (\<lambda>sum t. sum + pnl t) 0 allTrades;
          equity0 = startingCapital cfg + finalRealisedPnl
      in if curve = [] \<or> equity (last curve) \<noteq> equity0
         then (let lastTs = (if length timeline > 0 then last timeline else dateNow env)
               in curve @ [\<lparr>ep_timestamp = lastTs, equity = equity0\<rparr>])
         else curve)"

section \<open>Results calculation (calculateResults)\<close>

subsection \<open>Max drawdown\<close>

text \<open>
  The scan keeps \<open>(maxDrawdown, maxDrawdownPercent, peak)\<close>; \<open>drawdownStep\<close> is the body of
  the loop over the equity curve.
\<close>

type_synonym DrawdownState = "real \<times> jsnum \<times> real"

definition dd_peak :: "DrawdownState \<Rightarrow> real" where
  "dd_peak d = snd (snd d)"

definition drawdownStep :: "DrawdownState \<Rightarrow> EquityPoint \<Rightarrow> DrawdownState" where
  "drawdownStep d point =
     (let maxDrawdown0 = fst d;
          maxDrawdownPercent0 = fst (snd d);
          peak = (if equity point > dd_peak d then equity point else dd_peak d);
          drawdown = peak - equity point
      in if drawdown > maxDrawdown0
         then (drawdown, percent_of drawdown peak, peak)
         else (maxDrawdown0, maxDrawdownPercent0, peak))"

definition drawdownInit :: "real \<Rightarrow> EquityPoint list \<Rightarrow> DrawdownState" where
  "drawdownInit startingCapital0 curve =
     (0, Fin 0, if length curve > 0 then equity (hd curve) else startingCapital0)"

definition drawdownScan :: "real \<Rightarrow> EquityPoint list \<Rightarrow> DrawdownState" where
  "drawdownScan startingCapital0 curve =
     foldl drawdownStep (drawdownInit startingCapital0 curve) curve"

subsection \<open>Sharpe ratio\<close>

definition DAY_MS :: int where
  "DAY_MS = 86400000"

definition dayKeyOf :: "EquityPoint \<Rightarrow> int" where
  "dayKeyOf point = (ep_timestamp point div DAY_MS) * DAY_MS"

text \<open>
  \<open>dailyEquity\<close> is the insertion-ordered \<open>Map\<close> from day key to \<open>{first, last}\<close>, here
  an association list of pairs.
\<close>

definition dailyEquityStep :: "(int \<times> real \<times> real) list \<Rightarrow> EquityPoint \<Rightarrow> (int \<times> real \<times> real) list" where
  "dailyEquityStep dailyEquity point =
     (let dayKey = dayKeyOf point
      in case map_of dailyEquity dayKey of
           None \<Rightarrow> dailyEquity @ [(dayKey, (equity point, equity point))]
         | Some existing \<Rightarrow> AList.update dayKey (fst existing, equity point) dailyEquity)"

definition dailyEquityOf :: "EquityPoint list \<Rightarrow> (int \<times> real \<times> real) list" where
  "dailyEquityOf curve = foldl dailyEquityStep [] curve"

definition dailyReturnsOf :: "(int \<times> real \<times> real) list \<Rightarrow> real list" where
  "dailyReturnsOf dailyEquity =
     (let dayKeys = sort (map fst dailyEquity)
      in foldl (\<lambda>dailyReturns i.
                  let prevEquity = snd (the (map_of dailyEquity (dayKeys ! (i - 1))));
                      currEquity = snd (the (map_of dailyEquity (dayKeys ! i)))
                  in if prevEquity \<noteq> 0
                     then dailyReturns @ [(currEquity - prevEquity) / prevEquity]
                     else dailyReturns)
           [] [1..<length dayKeys])"

definition sharpeOfReturns :: "real list \<Rightarrow> real" where
  "sharpeOfReturns dailyReturns =
     (if length dailyReturns > 1 then
        (let meanReturn = foldl (\<lambda>s r. s + r) 0 dailyReturns / real (length dailyReturns);
             variance = foldl (\<lambda>s r. s + (r - meanReturn) ^ 2) 0 dailyReturns
                          / real (length dailyReturns - 1);
             stdDev = sqrt variance
         in if stdDev > 0 then (meanReturn / stdDev) * sqrt 365 else 0)
      else 0)"

definition sharpeRatioOf :: "EquityPoint list \<Rightarrow> real" where
  "sharpeRatioOf curve =
     (if length curve > 1 then sharpeOfReturns (dailyReturnsOf (dailyEquityOf curve)) else 0)"

subsection \<open>Monthly and per-symbol breakdowns\<close>

text \<open>
  \<open>Date.getUTCFullYear\<close> and \<open>Date.getUTCMonth() + 1\<close> of a time value (proleptic
  Gregorian calendar, days counted from 0000-03-01); a time value outside the range of
  \<open>Date\<close> gives an invalid date, whose fields print as \<open>NaN\<close>.
\<close>

definition utcYearMonth :: "int \<Rightarrow> int \<times> int" where
  "utcYearMonth ms =
     (let z = ms div DAY_MS + 719468;
          era = z div 146097;
          doe = z - era * 146097;
          yoe = (doe - doe div 1460 + doe div 36524 - doe div 146096) div 365;
          doy = doe - (365 * yoe + yoe div 4 - yoe div 100);
          mp = (5 * doy + 2) div 153;
          m = (if mp < 10 then mp + 3 else mp - 9);
          y = yoe + era * 400
      in (if m \<le> 2 then y + 1 else y, m))"

definition padStart2 :: "string \<Rightarrow> string" where
  "padStart2 str = (if length str < 2 then replicate (2 - length str) (CHR ''0'') @ str else str)"

definition monthKeyOf :: "int \<Rightarrow> string" where
  "monthKeyOf t =
     (if \<bar>t\<bar> > 8640000000000000 then ''NaN-NaN''
      else (let ym = utcYearMonth t
            in showInt (fst ym) @ ''-'' @ padStart2 (showInt (snd ym))))"

text \<open>
  \<open>Array.prototype.sort\<close> with a comparator is stable: an element is placed before the
  first one that the comparator orders after it.
\<close>

fun insertCmp :: "('a \<Rightarrow> 'a \<Rightarrow> 'b::{zero,ord}) \<Rightarrow> 'a \<Rightarrow> 'a list \<Rightarrow> 'a list" where
  "insertCmp cmp x [] = [x]"
| "insertCmp cmp x (y # ys) = (if cmp x y < 0 then x # y # ys else y # insertCmp cmp x ys)"

definition sortCmp :: "('a \<Rightarrow> 'a \<Rightarrow> 'b::{zero,ord}) \<Rightarrow> 'a list \<Rightarrow> 'a list" where
  "sortCmp cmp xs = foldl (\<lambda>acc x. insertCmp cmp x acc) [] xs"

definition monthlyStep :: "(string \<times> real \<times> nat \<times> nat) list \<Rightarrow> Trade \<Rightarrow> (string \<times> real \<times> nat \<times> nat) list" where
  "monthlyStep monthlyMap trade =
     (let monthKey = monthKeyOf (exitTime trade);
          entry = (case map_of monthlyMap monthKey of None \<Rightarrow> (0, 0, 0) | Some e \<Rightarrow> e);
          pnl0 = fst entry + pnl trade;
          trades0 = Suc (fst (snd entry));
          wins0 = (if pnl trade > 0 then Suc (snd (snd entry)) else snd (snd entry))
      in AList.update monthKey (pnl0, trades0, wins0) monthlyMap)"

definition monthlyReturnsOf :: "Env \<Rightarrow> real \<Rightarrow> Trade list \<Rightarrow> MonthlyReturn list" where
  "monthlyReturnsOf env startingCapital0 trs =
     map (\<lambda>(month0, pnl0, trades0, wins0).
            \<lparr>month = month0, mr_pnl = pnl0, mr_pnlPercent = percent_of pnl0 startingCapital0,
             mr_trades = trades0,
             mr_winRate = (if trades0 > 0 then (real wins0 / real trades0) * 100 else 0)\<rparr>)
       (sortCmp (\<lambda>a b. localeCompare env (fst a) (fst b)) (foldl monthlyStep [] trs))"

definition symbolStep ::
  "(string \<times> nat \<times> real \<times> nat \<times> real \<times> real) list \<Rightarrow> Trade
     \<Rightarrow> (string \<times> nat \<times> real \<times> nat \<times> real \<times> real) list" where
  "symbolStep symbolMap trade =
     (case (case map_of symbolMap (symbol trade) of None \<Rightarrow> (0, 0, 0, 0, 0) | Some e \<Rightarrow> e) of
        (trades0, pnl0, wins0, winPnl, lossPnl) \<Rightarrow>
          AList.update (symbol trade)
            (if pnl trade > 0
             then (Suc trades0, pnl0 + pnl trade, Suc wins0, winPnl + pnl trade, lossPnl)
             else (Suc trades0, pnl0 + pnl trade, wins0, winPnl, lossPnl + \<bar>pnl trade\<bar>))
            symbolMap)"

definition symbolBreakdownOf :: "Env \<Rightarrow> Trade list \<Rightarrow> SymbolBreakdown list" where
  "symbolBreakdownOf env trs =
     map (\<lambda>(symbol0, trades0, pnl0, wins0, winPnl, lossPnl).
            \<lparr>sb_symbol = symbol0, sb_trades = trades0, sb_pnl = pnl0,
             sb_winRate = (if trades0 > 0 then (real wins0 / real trades0) * 100 else 0),
             sb_profitFactor = (if lossPnl = 0 then PosInf else Fin (winPnl / lossPnl))\<rparr>)
       (sortCmp (\<lambda>a b. localeCompare env (fst a) (fst b)) (foldl symbolStep [] trs))"

subsection \<open>The result\<close>

definition reduce1 :: "('a \<Rightarrow> 'a \<Rightarrow> 'a) \<Rightarrow> 'a list \<Rightarrow> 'a option" where
  "reduce1 f xs = (case xs of [] \<Rightarrow> None | x # rest \<Rightarrow> Some (foldl f x rest))"

definition calculateResults :: "Env \<Rightarrow> BacktestConfig \<Rightarrow> Trade list \<Rightarrow> EquityPoint list \<Rightarrow> BacktestResult" where
  "calculateResults env cfg trs curve =
     (let totalTrades0 = length trs;
          wins0 = length (filter (\<lambda>t. pnl t > 0) trs);
          losses0 = length (filter (\<lambda>t. pnl t \<le> 0) trs);
          winRate0 = (if totalTrades0 > 0 then (real wins0 / real totalTrades0) * 100 else 0);
          totalPnl0 = foldl (\<lambda>sum t. sum + pnl t) 0 trs;
          winningPnls = map pnl (filter (\<lambda>t. pnl t > 0) trs);
          losingPnls = map pnl (filter (\<lambda>t. pnl t \<le> 0) trs);
          sumWins = foldl (\<lambda>s p. s + p) 0 winningPnls;
          sumLosses = \<bar>foldl (\<lambda>s p. s + p) 0 losingPnls\<bar>;
          dd = drawdownScan (startingCapital cfg) curve
      in \<lparr>strategyName = name (strategy cfg),
          r_leverage = cfg_leverage cfg,
          trades = trs,
          totalTrades = totalTrades0,
          wins = wins0,
          losses = losses0,
          winRate = winRate0,
          totalPnl = totalPnl0,
          totalPnlPercent = percent_of totalPnl0 (startingCapital cfg),
          profitFactor = (if sumLosses = 0 then PosInf else Fin (sumWins / sumLosses)),
          maxDrawdown = fst dd,
          maxDrawdownPercent = fst (snd dd),
          avgWin = (if length winningPnls > 0 then sumWins / real (length winningPnls) else 0),
          avgLoss = (if length losingPnls > 0
                     then foldl (\<lambda>s p. s + p) 0 losingPnls / real (length losingPnls) else 0),
          bestTrade = reduce1 (\<lambda>best t. if pnl t > pnl best then t else best) trs,
          worstTrade = reduce1 (\<lambda>worst t. if pnl t < pnl worst then t else worst) trs,
          avgTradeDuration =
            (if length trs > 0
             then real_of_int (foldl (\<lambda>sum t. sum + duration t) 0 trs) / real (length trs)
             else 0),
          sharpeRatio = sharpeRatioOf curve,
          monthlyReturns = monthlyReturnsOf env (startingCapital cfg) trs,
          symbolBreakdown = symbolBreakdownOf env trs,
          r_equityCurve = curve,
          finalEquity = startingCapital cfg + totalPnl0,
          r_startingCapital = startingCapital cfg\<rparr>)"

section \<open>runBacktest\<close>

text \<open>
  The module-level \<open>positionCounter\<close> is state that outlives a run: \<open>runBacktest\<close> takes its
  value before the call (and resets it), and returns its value afterwards with the result.
\<close>

definition runBacktest :: "Env \<Rightarrow> nat \<Rightarrow> BacktestConfig \<Rightarrow> BacktestResult \<times> nat" where
  "runBacktest env positionCounter0 cfg =
     (let loaded = loadData env cfg;
          symbolDataMap = fst loaded;
          s = simulate cfg symbolDataMap (snd loaded);
          allTrades = forceClose cfg symbolDataMap s;
          curve = finalEquityCurve env cfg (sortedTimestamps symbolDataMap) allTrades (equityCurve s)
      in (calculateResults env cfg allTrades curve, positionCounter s))"

section \<open>ALT/BTC ratio candles (altbtc.ts)\<close>

definition ALT_SYMBOLS :: "string list" where
  "ALT_SYMBOLS = [''ETHUSDT'', ''SOLUSDT'', ''BNBUSDT'', ''XRPUSDT'', ''ADAUSDT'',
                  ''DOGEUSDT'', ''AVAXUSDT'', ''LINKUSDT'', ''SUIUSDT'']"

record RatioRow = Candle +
  rr_altUsdtPrice :: real
  rr_btcUsdtPrice :: real

record AltBtcCandle = Candle +
  altSymbol :: string
  altUsdtPrice :: real
  btcUsdtPrice :: real
  ab_indicators :: Indicators
  altFundingRate :: "real option"

text \<open>
  The loop \<open>while (lo < hi)\<close> shared by \<open>binarySearchClosest\<close> and
  \<open>findClosestCandleIndex\<close>, over an accessor \<open>f\<close> for the sorted keys.
\<close>

function lowerBoundLoop :: "(nat \<Rightarrow> int) \<Rightarrow> int \<Rightarrow> nat \<Rightarrow> nat \<Rightarrow> nat" where
  "lowerBoundLoop f target lo hi =
     (if lo < hi
      then (if f ((lo + hi) div 2) < target
            then lowerBoundLoop f target ((lo + hi) div 2 + 1) hi
            else lowerBoundLoop f target lo ((lo + hi) div 2))
      else lo)"
  by pat_completeness auto
termination
  by (relation "measure (\<lambda>(f, target, lo, hi). hi - lo)") auto

definition closestIndex :: "(nat \<Rightarrow> int) \<Rightarrow> nat \<Rightarrow> int \<Rightarrow> int" where
  "closestIndex f n target =
     (if n = 0 then - 1
      else (let lo = lowerBoundLoop f target 0 (n - 1)
            in if lo = 0 then 0
               else if lo \<ge> n then int n - 1
               else (let diffLo = \<bar>f lo - target\<bar>;
                         diffPrev = \<bar>f (lo - 1) - target\<bar>
                     in if diffPrev \<le> diffLo then int lo - 1 else int lo)))"

definition binarySearchClosest :: "int list \<Rightarrow> int \<Rightarrow> int" where
  "binarySearchClosest sortedArr target = closestIndex (\<lambda>i. sortedArr ! i) (length sortedArr) target"

definition findClosestCandleIndex :: "AltBtcCandle list \<Rightarrow> int \<Rightarrow> int" where
  "findClosestCandleIndex candles target =
     closestIndex (\<lambda>i. timestamp (candles ! i)) (length candles) target"

definition attachFunding :: "FundingRate list option \<Rightarrow> AltBtcCandle \<Rightarrow> AltBtcCandle" where
  "attachFunding fundingRates candle =
     (case fundingRates of
        None \<Rightarrow> candle
      | Some frs \<Rightarrow>
          if length frs > 0 then
            (let idx = binarySearchClosest (map fundingRateTimestamp frs) (timestamp candle)
             in if idx \<ge> 0 \<and> idx < int (length frs)
                then candle\<lparr>altFundingRate := Some (fundingRate (frs ! nat idx))\<rparr>
                else candle)
          else candle)"

definition buildAltBtcCandles :: "Env \<Rightarrow> string \<Rightarrow> string \<Rightarrow> AltBtcCandle list option" where
  "buildAltBtcCandles env altSymbol0 timeframe0 =
     (case loadCandles env ''BTCUSDT'' timeframe0 of
        None \<Rightarrow> None
      | Some btcCandles \<Rightarrow>
          if btcCandles = [] then None
          else (case loadCandles env altSymbol0 timeframe0 of
                  None \<Rightarrow> None
                | Some altCandles \<Rightarrow>
                    if altCandles = [] then None
                    else
                     (let btcMap = foldl (\<lambda>m c. m(timestamp c \<mapsto> c)) Map.empty btcCandles;
                          ratioRows0 =
                            foldl (\<lambda>rows alt.
                                     case btcMap (timestamp alt) of
                                       None \<Rightarrow> rows
                                     | Some btc \<Rightarrow>
                                         if c_open btc = 0 \<or> close btc = 0 \<or> high btc = 0 \<or> low btc = 0
                                         then rows
                                         else rows @
                                           [\<lparr>timestamp = timestamp alt,
                                             c_open = c_open alt / c_open btc,
                                             high = high alt / low btc,
                                             low = low alt / high btc,
                                             close = close alt / close btc,
                                             volume = volume alt,
                                             turnover = turnover alt,
                                             rr_altUsdtPrice = close alt,
                                             rr_btcUsdtPrice = close btc\<rparr>])
                                  [] altCandles
                      in if ratioRows0 = [] then None
                         else
                          (let ratioRows = sortCmp (\<lambda>a b. timestamp a - timestamp b) ratioRows0;
                               dummyCandles = map (\<lambda>r. \<lparr>timestamp = timestamp r, c_open = c_open r,
                                                          high = high r, low = low r, close = close r,
                                                          volume = volume r, turnover = turnover r\<rparr>)
                                                ratioRows;
                               candlesWithIndicators = calculateIndicators env dummyCandles;
                               result =
                                 map (\<lambda>i. let r = ratioRows ! i
                                           in \<lparr>timestamp = timestamp r, c_open = c_open r,
                                               high = high r, low = low r, close = close r,
                                               volume = volume r, turnover = turnover r,
                                               altSymbol = altSymbol0,
                                               altUsdtPrice = rr_altUsdtPrice r,
                                               btcUsdtPrice = rr_btcUsdtPrice r,
                                               ab_indicators = indicators (candlesWithIndicators ! i),
                                               altFundingRate = None\<rparr>)
                                   [0..<length ratioRows]
                           in Some (map (attachFunding (loadFundingRates env altSymbol0)) result)))))"

definition buildAllAltBtcCandles :: "Env \<Rightarrow> string \<Rightarrow> (string \<times> AltBtcCandle list) list" where
  "buildAllAltBtcCandles env timeframe0 =
     foldl (\<lambda>result s.
              case buildAltBtcCandles env s timeframe0 of
                None \<Rightarrow> result
              | Some candles \<Rightarrow>
                  if length candles > 0 then AList.update s candles result else result)
       [] ALT_SYMBOLS"

definition calculateAvgRatioTrend :: "(string \<times> AltBtcCandle list) list \<Rightarrow> int \<Rightarrow> int \<Rightarrow> real" where
  "calculateAvgRatioTrend allAltCandles timestamp0 lookbackDays =
     (let lookbackMs = lookbackDays * 86400000;
          startTimestamp = timestamp0 - lookbackMs;
          acc = foldl (\<lambda>(totalPctChange, count) sc.
                         let candles = snd sc
                         in if length candles = 0 then (totalPctChange, count)
                            else (let startIdx = findClosestCandleIndex candles startTimestamp;
                                      endIdx = findClosestCandleIndex candles timestamp0
                                  in if startIdx < 0 \<or> endIdx < 0 then (totalPctChange, count)
                                     else (let startRatio = close (candles ! nat startIdx);
                                               endRatio = close (candles ! nat endIdx)
                                           in if startRatio = 0 then (totalPctChange, count)
                                              else (totalPctChange
                                                      + ((endRatio - startRatio) / startRatio) * 100,
                                                    Suc count))))
                      (0, 0) allAltCandles
      in if snd acc = 0 then 0 else fst acc / real (snd acc))"

section \<open>BTC-denominated rotation engine (btc-backtester.ts)\<close>

definition STARTING_BTC :: real where
  "STARTING_BTC = 5 / 100"

definition MAX_CONCURRENT_POSITIONS :: nat where
  "MAX_CONCURRENT_POSITIONS = 3"

definition STOP_LOSS_PCT :: real where
  "STOP_LOSS_PCT = 15 / 100"

definition TP1_PCT :: real where
  "TP1_PCT = 30 / 100"

definition TP2_PCT :: real where
  "TP2_PCT = 50 / 100"

definition TP1_SELL_FRACTION :: real where
  "TP1_SELL_FRACTION = 50 / 100"

definition MAX_HOLD_MS :: int where
  "MAX_HOLD_MS = 14 * 86400000"

definition DOMINANCE_TREND_THRESHOLD :: real where
  "DOMINANCE_TREND_THRESHOLD = 2"

definition MIN_BTC_ALLOCATION :: real where
  "MIN_BTC_ALLOCATION = 1 / 10000"

definition EQUITY_RECORD_INTERVAL :: nat where
  "EQUITY_RECORD_INTERVAL = 10"

definition SPOT_COMMISSION_RATE :: real where
  "SPOT_COMMISSION_RATE = 1 / 1000"

definition FUTURES_COMMISSION_RATE :: real where
  "FUTURES_COMMISSION_RATE = 6 / 10000"

record BtcPosition =
  b_id :: string
  b_altSymbol :: string
  entryRatio :: real
  btcAllocated :: real
  b_entryTime :: int
  b_exitTime :: "int option"
  exitRatio :: "real option"
  btcPnl :: "real option"
  b_status :: Status
  b_reason :: string
  b_exitReason :: "string option"
  b_tp1Hit :: bool
  b_leverage :: real

text \<open>
  A \<open>BtcTrade\<close> is the closed position spread into a new object, with the exit fields no
  longer optional.
\<close>

record BtcTrade =
  t_id :: string
  t_altSymbol :: string
  t_entryRatio :: real
  t_btcAllocated :: real
  t_entryTime :: int
  t_exitTime :: int
  t_exitRatio :: real
  t_btcPnl :: real
  t_status :: Status
  t_reason :: string
  t_exitReason :: string
  t_tp1Hit :: bool
  t_leverage :: real
  t_duration :: int

record BtcEntrySignal =
  be_enter :: bool
  stopLossRatio :: real
  tp1Ratio :: real
  tp2Ratio :: real
  btcAllocation :: real
  be_reason :: string

record BtcExitSignal =
  bx_exit :: bool
  sellFraction :: real
  bx_reason :: string

record BtcStrategy =
  bs_name :: string
  bs_leverage :: real
  bs_shouldEnter :: "AltBtcCandle list \<Rightarrow> nat \<Rightarrow> real \<Rightarrow> BtcEntrySignal"
  bs_shouldExit :: "BtcPosition \<Rightarrow> AltBtcCandle list \<Rightarrow> nat \<Rightarrow> real \<Rightarrow> BtcExitSignal"

record BtcEquityPoint =
  bp_timestamp :: int
  btcEquity :: real
  usdtEquity :: real

record AltBreakdown =
  ab_symbol :: string
  ab_trades :: nat
  ab_btcPnl :: real
  ab_winRate :: real

record BtcBacktestResult =
  br_strategyName :: string
  startingBtc :: real
  finalBtc :: real
  btcProfit :: real
  btcProfitPercent :: real
  br_startBtcPrice :: real
  br_endBtcPrice :: real
  usdtValueStart :: real
  usdtValueEnd :: real
  holdOnlyUsdtEnd :: real
  br_totalTrades :: nat
  br_wins :: nat
  br_losses :: nat
  br_winRate :: real
  avgHoldTime :: real
  br_bestTrade :: "BtcTrade option"
  br_worstTrade :: "BtcTrade option"
  br_trades :: "BtcTrade list"
  br_equityCurve :: "BtcEquityPoint list"
  perAltBreakdown :: "AltBreakdown list"

subsection \<open>Internal helpers\<close>

definition calculateBtcReturn :: "real \<Rightarrow> real \<Rightarrow> real \<Rightarrow> real \<Rightarrow> real \<Rightarrow> real" where
  "calculateBtcReturn btcAllocated0 entryRatio0 exitRatio0 leverage0 commissionRate0 =
     (if entryRatio0 = 0 then 0
      else
       (let ratioChange = exitRatio0 / entryRatio0;
            grossReturn =
              (if leverage0 \<le> 1 then btcAllocated0 * ratioChange
               else (let g = btcAllocated0 * (1 + leverage0 * (ratioChange - 1))
                     in if g < 0 then 0 else g));
            notional = (if leverage0 \<le> 1 then btcAllocated0 else btcAllocated0 * leverage0);
            totalCommission = notional * commissionRate0 * 2;
            netReturn = grossReturn - totalCommission
        in max netReturn 0))"

definition getCloseBtcReturn :: "BtcPosition \<Rightarrow> real \<Rightarrow> real \<Rightarrow> real \<Rightarrow> real" where
  "getCloseBtcReturn pos exitRatio0 leverage0 commissionRate0 =
     calculateBtcReturn (btcAllocated pos) (entryRatio pos) exitRatio0 leverage0 commissionRate0"

text \<open>
  \<open>closePosition\<close> of the BTC engine: it mutates the position, and pushes the trade on
  \<open>completedTrades\<close>. The model returns the mutated position and the extended list.
\<close>

definition closeBtcPosition ::
  "BtcPosition \<Rightarrow> real \<Rightarrow> int \<Rightarrow> string \<Rightarrow> BtcTrade list \<Rightarrow> real \<Rightarrow> real
     \<Rightarrow> BtcPosition \<times> BtcTrade list" where
  "closeBtcPosition pos exitRatio0 exitTime0 exitReason0 completedTrades0 leverage0 commissionRate0 =
     (let btcReturned = calculateBtcReturn (btcAllocated pos) (entryRatio pos) exitRatio0
                          leverage0 commissionRate0;
          btcPnl0 = btcReturned - btcAllocated pos;
          pos1 = pos\<lparr>b_status := StatusClosed, exitRatio := Some exitRatio0,
                     b_exitTime := Some exitTime0, b_exitReason := Some exitReason0,
                     btcPnl := Some btcPnl0\<rparr>;
          trade = \<lparr>t_id = b_id pos1, t_altSymbol = b_altSymbol pos1,
                   t_entryRatio = entryRatio pos1, t_btcAllocated = btcAllocated pos1,
                   t_entryTime = b_entryTime pos1, t_exitTime = exitTime0,
                   t_exitRatio = exitRatio0, t_btcPnl = btcPnl0, t_status = StatusClosed,
                   t_reason = b_reason pos1, t_exitReason = exitReason0,
                   t_tp1Hit = b_tp1Hit pos1, t_leverage = b_leverage pos1,
                   t_duration = exitTime0 - b_entryTime pos1\<rparr>
      in (pos1, completedTrades0 @ [trade]))"

function findRatioLoop :: "AltBtcCandle list \<Rightarrow> int \<Rightarrow> int \<Rightarrow> int \<Rightarrow> int \<Rightarrow> int" where
  "findRatioLoop candles timestamp0 lo hi bestIdx =
     (if lo \<le> hi
      then (if timestamp (candles ! nat ((lo + hi) div 2)) \<le> timestamp0
            then findRatioLoop candles timestamp0 ((lo + hi) div 2 + 1) hi ((lo + hi) div 2)
            else findRatioLoop candles timestamp0 lo ((lo + hi) div 2 - 1) bestIdx)
      else bestIdx)"
  by pat_completeness auto
termination
  by (relation "measure (\<lambda>(candles, timestamp0, lo, hi, bestIdx). nat (hi + 1 - lo))") auto

definition findRatioAtTimestamp :: "AltBtcCandle list \<Rightarrow> int \<Rightarrow> real" where
  "findRatioAtTimestamp candles timestamp0 =
     (if length candles = 0 then 0
      else (let bestIdx = findRatioLoop candles timestamp0 0 (int (length candles) - 1) (- 1)
            in if bestIdx < 0 then close (candles ! 0) else close (candles ! nat bestIdx)))"

definition calculateTotalEquity ::
  "real \<Rightarrow> BtcPosition list \<Rightarrow> (string \<times> AltBtcCandle list) list \<Rightarrow> int \<Rightarrow> real" where
  "calculateTotalEquity availableBtc0 openPositions0 allAltCandles timestamp0 =
     foldl (\<lambda>total pos.
              if b_status pos \<noteq> StatusOpen then total
              else (case map_of allAltCandles (b_altSymbol pos) of
                      None \<Rightarrow> total + btcAllocated pos
                    | Some altCandles \<Rightarrow>
                        if length altCandles = 0 then total + btcAllocated pos
                        else (let currentRatio = findRatioAtTimestamp altCandles timestamp0
                              in if currentRatio \<le> 0 \<or> entryRatio pos \<le> 0
                                 then total + btcAllocated pos
                                 else (let ratioChange = currentRatio / entryRatio pos
                                       in if b_leverage pos \<le> 1
                                          then total + btcAllocated pos * ratioChange
                                          else total + max (btcAllocated pos
                                                 * (1 + b_leverage pos * (ratioChange - 1))) 0))))
       availableBtc0 openPositions0"

text \<open>
  \<open>removeFromArray\<close> removes by object identity. Every position of a run has its own
  \<open>id\<close>, so the model compares the \<open>id\<close> fields.
\<close>

fun removeFromArray :: "BtcPosition list \<Rightarrow> BtcPosition \<Rightarrow> BtcPosition list" where
  "removeFromArray [] item = []"
| "removeFromArray (x # arr) item =
     (if b_id x = b_id item then arr else x # removeFromArray arr item)"

definition groupStep :: "(string \<times> BtcTrade list) list \<Rightarrow> BtcTrade \<Rightarrow> (string \<times> BtcTrade list) list" where
  "groupStep grouped t =
     (case map_of grouped (t_altSymbol t) of
        Some existing \<Rightarrow> AList.update (t_altSymbol t) (existing @ [t]) grouped
      | None \<Rightarrow> grouped @ [(t_altSymbol t, [t])])"

definition buildAltBreakdown :: "BtcTrade list \<Rightarrow> AltBreakdown list" where
  "buildAltBreakdown trs =
     (let grouped = foldl groupStep [] trs;
          breakdown =
            map (\<lambda>(symbol0, altTrades).
                   let wins0 = length (filter (\<lambda>t. t_btcPnl t > 0) altTrades);
                       totalPnl0 = foldl (\<lambda>sum t. sum + t_btcPnl t) 0 altTrades
                   in \<lparr>ab_symbol = symbol0, ab_trades = length altTrades, ab_btcPnl = totalPnl0,
                       ab_winRate = (if length altTrades > 0
                                     then (real wins0 / real (length altTrades)) * 100 else 0)\<rparr>)
              grouped
      in sortCmp (\<lambda>a b. ab_btcPnl b - ab_btcPnl a) breakdown)"

definition emptyResult :: "string \<Rightarrow> BtcBacktestResult" where
  "emptyResult strategyName0 =
     \<lparr>br_strategyName = strategyName0, startingBtc = STARTING_BTC, finalBtc = STARTING_BTC,
      btcProfit = 0, btcProfitPercent = 0, br_startBtcPrice = 0, br_endBtcPrice = 0,
      usdtValueStart = 0, usdtValueEnd = 0, holdOnlyUsdtEnd = 0, br_totalTrades = 0,
      br_wins = 0, br_losses = 0, br_winRate = 0, avgHoldTime = 0, br_bestTrade = None,
      br_worstTrade = None, br_trades = [], br_equityCurve = [], perAltBreakdown = []\<rparr>"

subsection \<open>Main backtest runner (runBtcBacktest)\<close>

record BtcState =
  availableBtc :: real
  b_openPositions :: "BtcPosition list"
  b_completedTrades :: "BtcTrade list"
  b_equityCurve :: "BtcEquityPoint list"
  b_positionCounter :: nat
  startBtcPrice :: real
  endBtcPrice :: real
  candelCounter :: nat
  currentBtcUsdtPrice :: real

definition btcInitialState :: BtcState where
  "btcInitialState =
     \<lparr>availableBtc = STARTING_BTC, b_openPositions = [], b_completedTrades = [],
      b_equityCurve = [], b_positionCounter = 0, startBtcPrice = 0, endBtcPrice = 0,
      candelCounter = 0, currentBtcUsdtPrice = 0\<rparr>"

text \<open>
  The three statements of every full exit: close the position, credit what it returns,
  and remove it from the ledger.
\<close>

definition fullExit ::
  "BtcStrategy \<Rightarrow> real \<Rightarrow> BtcPosition \<Rightarrow> real \<Rightarrow> int \<Rightarrow> string \<Rightarrow> BtcState \<Rightarrow> BtcState" where
  "fullExit strat commissionRate0 pos currentRatio timestamp0 exitReason0 s =
     (let closed = closeBtcPosition pos currentRatio timestamp0 exitReason0 (b_completedTrades s)
                     (bs_leverage strat) commissionRate0;
          pos1 = fst closed
      in s\<lparr>b_completedTrades := snd closed,
           availableBtc := availableBtc s
              + getCloseBtcReturn pos1 currentRatio (bs_leverage strat) commissionRate0,
           b_openPositions := removeFromArray (b_openPositions s) pos1\<rparr>)"

text \<open>A mutation of a position that stays in the ledger is written back under its \<open>id\<close>.\<close>

definition writeBack :: "BtcPosition \<Rightarrow> BtcPosition list \<Rightarrow> BtcPosition list" where
  "writeBack pos ps = map (\<lambda>q. if b_id q = b_id pos then pos else q) ps"

text \<open>The body of the loop \<open>for (const pos of positionsForAlt)\<close>.\<close>

definition btcExitStep ::
  "BtcStrategy \<Rightarrow> real \<Rightarrow> AltBtcCandle list \<Rightarrow> nat \<Rightarrow> real \<Rightarrow> real \<Rightarrow> int
     \<Rightarrow> BtcState \<Rightarrow> BtcPosition \<Rightarrow> BtcState" where
  "btcExitStep strat commissionRate0 altCandles candleIdx avgRatioTrend7d avgRatioTrend1d timestamp0 s pos =
     (let currentRatio = close (altCandles ! candleIdx)
      in if currentRatio \<le> entryRatio pos * (1 - STOP_LOSS_PCT)
         then fullExit strat commissionRate0 pos currentRatio timestamp0 ''stop_loss'' s
         else if avgRatioTrend1d > DOMINANCE_TREND_THRESHOLD
         then fullExit strat commissionRate0 pos currentRatio timestamp0 ''btc_dominance_drop'' s
         else if \<not> b_tp1Hit pos \<and> currentRatio \<ge> entryRatio pos * (1 + TP1_PCT)
         then (let originalAllocated = btcAllocated pos;
                   halfAllocated = originalAllocated * TP1_SELL_FRACTION;
                   btcReturned = calculateBtcReturn halfAllocated (entryRatio pos) currentRatio
                                   (bs_leverage strat) commissionRate0;
                   pos1 = pos\<lparr>btcAllocated := originalAllocated - halfAllocated,
                              b_tp1Hit := True\<rparr>
               in s\<lparr>availableBtc := availableBtc s + btcReturned,
                    b_openPositions := writeBack pos1 (b_openPositions s)\<rparr>)
         else if b_tp1Hit pos \<and> currentRatio \<ge> entryRatio pos * (1 + TP2_PCT)
         then fullExit strat commissionRate0 pos currentRatio timestamp0 ''tp2'' s
         else if timestamp0 - b_entryTime pos \<ge> MAX_HOLD_MS
         then fullExit strat commissionRate0 pos currentRatio timestamp0 ''max_hold_timeout'' s
         else (let exitSignal = bs_shouldExit strat pos altCandles candleIdx avgRatioTrend7d
               in if bx_exit exitSignal then
                    (let fraction = (if sellFraction exitSignal > 0 \<and> sellFraction exitSignal \<le> 1
                                     then sellFraction exitSignal else 1)
                     in if fraction \<ge> 1
                        then fullExit strat commissionRate0 pos currentRatio timestamp0
                               (bx_reason exitSignal) s
                        else (let partialAlloc = btcAllocated pos * fraction;
                                  btcReturned = calculateBtcReturn partialAlloc (entryRatio pos)
                                                  currentRatio (bs_leverage strat) commissionRate0;
                                  pos1 = pos\<lparr>btcAllocated := btcAllocated pos - partialAlloc\<rparr>
                              in s\<lparr>availableBtc := availableBtc s + btcReturned,
                                   b_openPositions := writeBack pos1 (b_openPositions s)\<rparr>))
                  else s))"

definition btcCheckEntry ::
  "BtcStrategy \<Rightarrow> (string \<times> AltBtcCandle list) list \<Rightarrow> string \<Rightarrow> AltBtcCandle list \<Rightarrow> nat
     \<Rightarrow> real \<Rightarrow> int \<Rightarrow> BtcState \<Rightarrow> BtcState" where
  "btcCheckEntry strat allAltCandles altSymbol0 altCandles candleIdx avgRatioTrend7d timestamp0 s =
     (let activeCount = length (filter (\<lambda>p. b_status p = StatusOpen) (b_openPositions s))
      in if activeCount \<ge> MAX_CONCURRENT_POSITIONS then s
         else if list_ex (\<lambda>p. b_altSymbol p = altSymbol0 \<and> b_status p = StatusOpen) (b_openPositions s)
         then s
         else (let entrySignal = bs_shouldEnter strat altCandles candleIdx avgRatioTrend7d
               in if be_enter entrySignal then
                    (let totalEquity = calculateTotalEquity (availableBtc s) (b_openPositions s)
                                         allAltCandles timestamp0;
                         btcToAllocate = min (totalEquity * btcAllocation entrySignal) (availableBtc s)
                     in if btcToAllocate < MIN_BTC_ALLOCATION then s
                        else (let positionCounter1 = Suc (b_positionCounter s);
                                  newPosition =
                                    \<lparr>b_id = ''btc-pos-'' @ showNat positionCounter1,
                                     b_altSymbol = altSymbol0,
                                     entryRatio = close (altCandles ! candleIdx),
                                     btcAllocated = btcToAllocate,
                                     b_entryTime = timestamp0, b_exitTime = None,
                                     exitRatio = None, btcPnl = None, b_status = StatusOpen,
                                     b_reason = be_reason entrySignal, b_exitReason = None,
                                     b_tp1Hit = False, b_leverage = bs_leverage strat\<rparr>
                              in s\<lparr>b_positionCounter := positionCounter1,
                                   b_openPositions := b_openPositions s @ [newPosition],
                                   availableBtc := availableBtc s - btcToAllocate\<rparr>))
                  else s))"

definition buildAltIndexMap :: "AltBtcCandle list \<Rightarrow> (int \<rightharpoonup> nat)" where
  "buildAltIndexMap candles =
     foldl (\<lambda>indexMap i. indexMap(timestamp (candles ! i) \<mapsto> i)) Map.empty [0..<length candles]"

definition btcProcessAlt ::
  "BtcStrategy \<Rightarrow> real \<Rightarrow> (string \<times> AltBtcCandle list) list \<Rightarrow> int \<Rightarrow> real \<Rightarrow> real
     \<Rightarrow> BtcState \<Rightarrow> string \<times> AltBtcCandle list \<Rightarrow> BtcState" where
  "btcProcessAlt strat commissionRate0 allAltCandles timestamp0 avgRatioTrend7d avgRatioTrend1d s sc =
     (let altSymbol0 = fst sc; altCandles = snd sc
      in case buildAltIndexMap altCandles timestamp0 of
           None \<Rightarrow> s
         | Some candleIdx \<Rightarrow>
            (let currentCandle = altCandles ! candleIdx;
                 s1 = s\<lparr>currentBtcUsdtPrice :=
                          (if currentBtcUsdtPrice s = 0 then btcUsdtPrice currentCandle
                           else currentBtcUsdtPrice s),
                        startBtcPrice :=
                          (if startBtcPrice s = 0 then btcUsdtPrice currentCandle
                           else startBtcPrice s),
                        endBtcPrice := btcUsdtPrice currentCandle\<rparr>;
                 positionsForAlt = filter (\<lambda>p. b_altSymbol p = altSymbol0 \<and> b_status p = StatusOpen)
                                     (b_openPositions s1);
                 s2 = foldl (btcExitStep strat commissionRate0 altCandles candleIdx
                               avgRatioTrend7d avgRatioTrend1d timestamp0) s1 positionsForAlt
             in btcCheckEntry strat allAltCandles altSymbol0 altCandles candleIdx
                  avgRatioTrend7d timestamp0 s2))"

definition btcProcessTimestamp ::
  "BtcStrategy \<Rightarrow> real \<Rightarrow> (string \<times> AltBtcCandle list) list \<Rightarrow> BtcState \<Rightarrow> int \<Rightarrow> BtcState" where
  "btcProcessTimestamp strat commissionRate0 allAltCandles s0 timestamp0 =
     (let s1 = s0\<lparr>candelCounter := Suc (candelCounter s0), currentBtcUsdtPrice := 0\<rparr>;
          avgRatioTrend7d = calculateAvgRatioTrend allAltCandles timestamp0 7;
          avgRatioTrend1d = calculateAvgRatioTrend allAltCandles timestamp0 1;
          s2 = foldl (btcProcessAlt strat commissionRate0 allAltCandles timestamp0
                        avgRatioTrend7d avgRatioTrend1d) s1 allAltCandles
      in if candelCounter s2 mod EQUITY_RECORD_INTERVAL = 0 \<and> currentBtcUsdtPrice s2 > 0
         then (let totalBtcEquity = calculateTotalEquity (availableBtc s2) (b_openPositions s2)
                                      allAltCandles timestamp0
               in s2\<lparr>b_equityCurve := b_equityCurve s2 @
                        [\<lparr>bp_timestamp = timestamp0, btcEquity = totalBtcEquity,
                          usdtEquity = totalBtcEquity * currentBtcUsdtPrice s2\<rparr>]\<rparr>)
         else s2)"

definition btcTimeline :: "(string \<times> AltBtcCandle list) list \<Rightarrow> int list" where
  "btcTimeline allAltCandles =
     sort (remdups (concat (map (\<lambda>sc. map timestamp (snd sc)) allAltCandles)))"

definition btcCommissionRate :: "BtcStrategy \<Rightarrow> real" where
  "btcCommissionRate strat =
     (if bs_leverage strat > 1 then FUTURES_COMMISSION_RATE else SPOT_COMMISSION_RATE)"

definition btcSimulate :: "BtcStrategy \<Rightarrow> (string \<times> AltBtcCandle list) list \<Rightarrow> BtcState" where
  "btcSimulate strat allAltCandles =
     foldl (btcProcessTimestamp strat (btcCommissionRate strat) allAltCandles)
       btcInitialState (btcTimeline allAltCandles)"

text \<open>Step 4: the positions still open are closed at the last candle of their alt.\<close>

definition btcForceCloseStep ::
  "BtcStrategy \<Rightarrow> (string \<times> AltBtcCandle list) list \<Rightarrow> int \<Rightarrow> BtcState \<Rightarrow> BtcPosition \<Rightarrow> BtcState" where
  "btcForceCloseStep strat allAltCandles lastTimestamp s pos =
     (if b_status pos \<noteq> StatusOpen then s
      else (case map_of allAltCandles (b_altSymbol pos) of
              None \<Rightarrow> s
            | Some altCandles \<Rightarrow>
                if length altCandles = 0 then s
                else fullExit strat (btcCommissionRate strat) pos (close (last altCandles))
                       lastTimestamp ''backtest_end'' s))"

definition btcForceClose :: "BtcStrategy \<Rightarrow> (string \<times> AltBtcCandle list) list \<Rightarrow> BtcState \<Rightarrow> BtcState" where
  "btcForceClose strat allAltCandles s =
     foldl (btcForceCloseStep strat allAltCandles (last (btcTimeline allAltCandles)))
       s (b_openPositions s)"

definition btcResults :: "BtcStrategy \<Rightarrow> BtcState \<Rightarrow> BtcBacktestResult" where
  "btcResults strat s =
     (let finalBtc0 = availableBtc s;
          btcProfit0 = finalBtc0 - STARTING_BTC;
          trs = b_completedTrades s;
          wins0 = length (filter (\<lambda>t. t_btcPnl t > 0) trs);
          losses0 = length (filter (\<lambda>t. t_btcPnl t \<le> 0) trs);
          totalTrades0 = length trs
      in \<lparr>br_strategyName = bs_name strat,
          startingBtc = STARTING_BTC,
          finalBtc = finalBtc0,
          btcProfit = btcProfit0,
          btcProfitPercent = (btcProfit0 / STARTING_BTC) * 100,
          br_startBtcPrice = startBtcPrice s,
          br_endBtcPrice = endBtcPrice s,
          usdtValueStart = STARTING_BTC * startBtcPrice s,
          usdtValueEnd = finalBtc0 * endBtcPrice s,
          holdOnlyUsdtEnd = STARTING_BTC * endBtcPrice s,
          br_totalTrades = totalTrades0,
          br_wins = wins0,
          br_losses = losses0,
          br_winRate = (if totalTrades0 > 0 then (real wins0 / real totalTrades0) * 100 else 0),
          avgHoldTime =
            (if totalTrades0 > 0
             then real_of_int (foldl (\<lambda>sum t. sum + t_duration t) 0 trs) / real totalTrades0
             else 0),
          br_bestTrade =
            foldl (\<lambda>best t. case best of
                                None \<Rightarrow> Some t
                              | Some b \<Rightarrow> if t_btcPnl t > t_btcPnl b then Some t else best) None trs,
          br_worstTrade =
            foldl (\<lambda>worst t. case worst of
                                 None \<Rightarrow> Some t
                               | Some w \<Rightarrow> if t_btcPnl t < t_btcPnl w then Some t else worst) None trs,
          br_trades = trs,
          br_equityCurve = b_equityCurve s,
          perAltBreakdown = buildAltBreakdown trs\<rparr>)"

definition runBtcBacktestOn :: "BtcStrategy \<Rightarrow> (string \<times> AltBtcCandle list) list \<Rightarrow> BtcBacktestResult" where
  "runBtcBacktestOn strat allAltCandles =
     (if length allAltCandles = 0 then emptyResult (bs_name strat)
      else if length (btcTimeline allAltCandles) = 0 then emptyResult (bs_name strat)
      else btcResults strat (btcForceClose strat allAltCandles (btcSimulate strat allAltCandles)))"

definition runBtcBacktest :: "Env \<Rightarrow> BtcStrategy \<Rightarrow> string \<Rightarrow> BtcBacktestResult" where
  "runBtcBacktest env strat timeframe0 =
     runBtcBacktestOn strat (buildAllAltBtcCandles env timeframe0)"

section \<open>Specification-side definitions\<close>

text \<open>A percentage is in range when it is finite and lies in the interval from 0 to 100.\<close>

definition inPercentRange :: "jsnum \<Rightarrow> bool" where
  "inPercentRange v = (case v of Fin q \<Rightarrow> 0 \<le> q \<and> q \<le> 100 | _ \<Rightarrow> False)"

section \<open>Sample inputs\<close>

text \<open>
  Concrete inputs on which the theorems below are instantiated: a data provider with one
  hourly series, the configuration of \<open>runAllBacktests\<close>, and small strategies.
\<close>

definition mkCandle :: "int \<Rightarrow> real \<Rightarrow> real \<Rightarrow> real \<Rightarrow> Candle" where
  "mkCandle t h l c =
     \<lparr>timestamp = t, c_open = c, high = h, low = l, close = c, volume = 1, turnover = 1\<rparr>"

definition sampleCandles :: "Candle list" where
  "sampleCandles =
     [mkCandle 0 (1000000 / 10003) (1000000 / 10003) (1000000 / 10003),
      mkCandle 3600000 110 99 105,
      mkCandle 7200000 106 104 105]"

definition codepointCompare :: "string \<Rightarrow> string \<Rightarrow> int" where
  "codepointCompare a b =
     (if a = b then 0
      else if lexordp (\<lambda>x y. (of_char x :: nat) < of_char y) a b then - 1 else 1)"

definition sampleEnv :: Env where
  "sampleEnv =
     \<lparr>loadCandles = (\<lambda>s tf. if s = ''BTCUSDT'' \<and> tf = ''1h'' then Some sampleCandles else None),
      loadFundingRates = (\<lambda>s. None),
      calculateIndicators =
        map (\<lambda>c. \<lparr>timestamp = timestamp c, c_open = c_open c, high = high c, low = low c,
                    close = close c, volume = volume c, turnover = turnover c,
                    indicators = \<lparr>atr = None\<rparr>\<rparr>),
      localeCompare = codepointCompare,
      dateNow = 1700000000000\<rparr>"

definition noEntry :: EntrySignal where
  "noEntry = \<lparr>enter = False, es_stopLoss = 0, es_takeProfit = 0, es_takeProfit2 = None,
              es_reason = ''''\<rparr>"

definition noExit :: ExitSignal where
  "noExit = \<lparr>exit = False, xs_reason = ''''\<rparr>"

text \<open>Scenario A: one long entry on the first candle, stop 95, take-profit 110, no TP2.\<close>

definition scenarioA :: Strategy where
  "scenarioA =
     \<lparr>name = ''scenario A'', requiredTimeframes = None,
      shouldEnterLong = (\<lambda>candles i m.
         if i = 0 then \<lparr>enter = True, es_stopLoss = 95, es_takeProfit = 110,
                        es_takeProfit2 = None, es_reason = ''entry''\<rparr>
         else noEntry),
      shouldEnterShort = (\<lambda>candles i m. noEntry),
      shouldExit = (\<lambda>position candles i m. noExit)\<rparr>"

text \<open>A strategy that signals a long entry on every candle and never exits.\<close>

definition alwaysLong :: Strategy where
  "alwaysLong =
     \<lparr>name = ''always long'', requiredTimeframes = None,
      shouldEnterLong = (\<lambda>candles i m.
         \<lparr>enter = True, es_stopLoss = 50, es_takeProfit = 200,
           es_takeProfit2 = None, es_reason = ''entry''\<rparr>),
      shouldEnterShort = (\<lambda>candles i m. noEntry),
      shouldExit = (\<lambda>position candles i m. noExit)\<rparr>"

definition sampleConfig :: "Strategy \<Rightarrow> BacktestConfig" where
  "sampleConfig strat =
     \<lparr>startingCapital = 500, cfg_leverage = 3, commissionRate = 6 / 10000,
      slippageRate = 3 / 10000, riskPerTrade = 4 / 100, maxConcurrentPositions = 3,
      symbols = [''BTCUSDT''], timeframe = ''1h'', strategy = strat\<rparr>"

text \<open>Scenario E: equity samples of five consecutive days.\<close>

definition scenarioE :: "EquityPoint list" where
  "scenarioE =
     [\<lparr>ep_timestamp = 1 * 86400000, equity = 1000\<rparr>,
      \<lparr>ep_timestamp = 2 * 86400000, equity = 1050\<rparr>,
      \<lparr>ep_timestamp = 3 * 86400000, equity = 900\<rparr>,
      \<lparr>ep_timestamp = 4 * 86400000, equity = 950\<rparr>,
      \<lparr>ep_timestamp = 5 * 86400000, equity = 1100\<rparr>]"

text \<open>An equity curve that falls below zero.\<close>

definition negativeCurve :: "EquityPoint list" where
  "negativeCurve =
     [\<lparr>ep_timestamp = 0, equity = 100\<rparr>, \<lparr>ep_timestamp = 3600000, equity = - 50\<rparr>]"

text \<open>
  The profit and loss of a trade as the specification words it: the gross gain on the full
  original size at the slippage-adjusted exit price, minus commission charged once per leg
  (entry, each partial close, final close) on the notional traded.
\<close>

definition grossGain :: "Trade \<Rightarrow> real" where
  "grossGain t =
     (if side t = Long
      then (exitPrice t - entryPrice t) / entryPrice t
      else (entryPrice t - exitPrice t) / entryPrice t) * pos_size t"

definition perLegCommission :: "Trade \<Rightarrow> real \<Rightarrow> real" where
  "perLegCommission t rate =
     pos_size t * rate
     + sum_list (map (\<lambda>pc. pc_size pc * rate) (partialCloses t))
     + remainingSize t * rate"

definition specPnl :: "Trade \<Rightarrow> real \<Rightarrow> real" where
  "specPnl t rate = grossGain t - perLegCommission t rate"

text \<open>The sample configuration on a timeframe for which the provider has no candles.\<close>

definition noDataConfig :: BacktestConfig where
  "noDataConfig = (sampleConfig scenarioA)\<lparr>timeframe := ''5m''\<rparr>"

text \<open>
  Sample inputs of the BTC engine: hourly ratio candles of one alt, a strategy that enters
  on the first candle of a series with a fifth of the equity and never asks for an exit, at
  leverage 2 and at leverage 1; and a position opened at ratio 1 in an otherwise fresh
  ledger.
\<close>

definition mkAlt :: "string \<Rightarrow> int \<Rightarrow> real \<Rightarrow> AltBtcCandle" where
  "mkAlt s t c =
     \<lparr>timestamp = t, c_open = c, high = c, low = c, close = c, volume = 1, turnover = 1,
      altSymbol = s, altUsdtPrice = c * 50000, btcUsdtPrice = 50000,
      ab_indicators = \<lparr>atr = None\<rparr>, altFundingRate = None\<rparr>"

definition noBtcEntry :: BtcEntrySignal where
  "noBtcEntry = \<lparr>be_enter = False, stopLossRatio = 0, tp1Ratio = 0, tp2Ratio = 0,
                 btcAllocation = 0, be_reason = ''''\<rparr>"

definition noBtcExit :: BtcExitSignal where
  "noBtcExit = \<lparr>bx_exit = False, sellFraction = 0, bx_reason = ''''\<rparr>"

definition enterFirst :: "real \<Rightarrow> BtcStrategy" where
  "enterFirst lev =
     \<lparr>bs_name = ''enter first'', bs_leverage = lev,
      bs_shouldEnter = (\<lambda>candles i trend.
         if i = 0 then \<lparr>be_enter = True, stopLossRatio = 0, tp1Ratio = 0, tp2Ratio = 0,
                        btcAllocation = 20 / 100, be_reason = ''entry''\<rparr>
         else noBtcEntry),
      bs_shouldExit = (\<lambda>pos candles i trend. noBtcExit)\<rparr>"

definition dropTwelve :: "(string \<times> AltBtcCandle list) list" where
  "dropTwelve =
     [(''ETHUSDT'', [mkAlt ''ETHUSDT'' 0 1, mkAlt ''ETHUSDT'' 3600000 (88 / 100),
                     mkAlt ''ETHUSDT'' 7200000 (88 / 100)])]"

definition zeroRatio :: "(string \<times> AltBtcCandle list) list" where
  "zeroRatio =
     [(''ETHUSDT'', [mkAlt ''ETHUSDT'' 0 0, mkAlt ''ETHUSDT'' 3600000 0])]"

definition samplePosition :: BtcPosition where
  "samplePosition =
     \<lparr>b_id = ''btc-pos-1'', b_altSymbol = ''ETHUSDT'', entryRatio = 1, btcAllocated = 1 / 100,
      b_entryTime = 0, b_exitTime = None, exitRatio = None, btcPnl = None,
      b_status = StatusOpen, b_reason = ''entry'', b_exitReason = None, b_tp1Hit = False,
      b_leverage = 2\<rparr>"

definition sampleLedger :: BtcState where
  "sampleLedger =
     btcInitialState\<lparr>availableBtc := 4 / 100, b_openPositions := [samplePosition],
                     b_positionCounter := 1\<rparr>"

text \<open>A candle and an entry signal whose stop is the slipped entry price.\<close>

definition flatCandle :: CandleWithIndicators where
  "flatCandle = \<lparr>timestamp = 0, c_open = 100, high = 100, low = 100, close = 100, volume = 1,
                  turnover = 1, indicators = \<lparr>atr = None\<rparr>\<rparr>"

definition stopAtEntry :: EntrySignal where
  "stopAtEntry = \<lparr>enter = True, es_stopLoss = 10003 / 100, es_takeProfit = 110,
                  es_takeProfit2 = None, es_reason = ''entry''\<rparr>"

section \<open>Invariants\<close>

text \<open>The drawdown scan keeps a non-negative maximum and a percentage in range.\<close>

definition dd_ok :: "DrawdownState \<Rightarrow> bool" where
  "dd_ok d = (0 \<le> fst d \<and> inPercentRange (fst (snd d)))"

text \<open>No position of the ledger and no closed trade has a negative remaining size.\<close>

definition sizeInv :: "State \<Rightarrow> bool" where
  "sizeInv s = ((\<forall>p \<in> set (openPositions s). 0 \<le> remainingSize p) \<and>
                (\<forall>t \<in> set (completedTrades s). 0 \<le> remainingSize t))"

section \<open>Lemmas about the USD engine\<close>

subsection \<open>Drawdown scan\<close>

lemma dd_peak_step: "dd_peak d \<le> dd_peak (drawdownStep d point)"
  by (simp add: drawdownStep_def dd_peak_def Let_def)

lemma scale100_le: "(x::real) \<le> 1 \<Longrightarrow> x * 100 \<le> 100"
  by simp

lemma scale100_ge: "(0::real) \<le> x \<Longrightarrow> 0 \<le> x * 100"
  by simp

lemma percent_of_range:
  assumes "0 \<le> e" "e < pk"
  shows "inPercentRange (percent_of (pk - e) pk)"
proof -
  have pk: "0 < pk" using assms by simp
  have "(pk - e) / pk \<le> 1" using assms pk by (simp add: divide_le_eq)
  then have a: "(pk - e) / pk * 100 \<le> 100" by (rule scale100_le)
  have "0 \<le> (pk - e) / pk" using assms pk by simp
  then have b: "0 \<le> (pk - e) / pk * 100" by (rule scale100_ge)
  have "percent_of (pk - e) pk = Fin ((pk - e) / pk * 100)"
    using pk by (simp add: percent_of_def js_div_def)
  then show ?thesis using a b by (simp only: inPercentRange_def jsnum.case)
qed

lemma dd_ok_step:
  assumes "dd_ok d" "0 \<le> equity point"
  shows "dd_ok (drawdownStep d point)"
proof -
  let ?pk = "if equity point > dd_peak d then equity point else dd_peak d"
  show ?thesis
  proof (cases "?pk - equity point > fst d")
    case True
    then have lt: "equity point < ?pk" using assms(1) by (simp add: dd_ok_def split: if_splits)
    have "inPercentRange (percent_of (?pk - equity point) ?pk)"
      by (rule percent_of_range[OF assms(2) lt])
    then show ?thesis using True assms(1)
      by (simp add: drawdownStep_def Let_def dd_ok_def split: if_splits)
  next
    case False
    then show ?thesis using assms(1)
      by (simp add: drawdownStep_def Let_def dd_ok_def)
  qed
qed

lemma dd_ok_foldl:
  "dd_ok d \<Longrightarrow> \<forall>p \<in> set xs. 0 \<le> equity p \<Longrightarrow> dd_ok (foldl drawdownStep d xs)"
  by (induction xs arbitrary: d) (simp_all add: dd_ok_step)

lemma dd_ok_init: "dd_ok (drawdownInit sc curve)"
  by (simp add: dd_ok_def drawdownInit_def inPercentRange_def)

lemma maxDrawdownPercent_calc:
  "maxDrawdownPercent (calculateResults env cfg trs curve) = fst (snd (drawdownScan (startingCapital cfg) curve))"
  by (simp add: calculateResults_def Let_def)

subsection \<open>Invariant rules for the main loop\<close>

lemma foldl_add_sum: "foldl (\<lambda>s x. s + f x) a xs = (a::real) + sum_list (map f xs)"
  by (induction xs arbitrary: a) simp_all

lemma exitStep_length:
  assumes "p < length (openPositions s)"
  shows "p \<le> length (openPositions (exitStep cfg symbol0 candles i m p s))"
    and "length (openPositions (exitStep cfg symbol0 candles i m p s)) \<le> length (openPositions s)"
  using assms by (auto simp: exitStep_def Let_def split: Outcome.splits)

lemma exitLoop_rule:
  assumes "P s" and "n \<le> length (openPositions s)"
      and step: "\<And>s p. P s \<Longrightarrow> p < length (openPositions s) \<Longrightarrow> P (exitStep cfg symbol0 candles i m p s)"
  shows "P (exitLoop cfg symbol0 candles i m n s)"
  using assms(1,2)
proof (induction n arbitrary: s)
  case 0
  then show ?case by simp
next
  case (Suc n)
  have lt: "n < length (openPositions s)" using Suc.prems(2) by simp
  show ?case
    using Suc.IH[OF step[OF Suc.prems(1) lt] exitStep_length(1)[OF lt]] by simp
qed

lemma enterLoop_rule:
  assumes "P s"
      and step: "\<And>s sg. P s \<Longrightarrow> real (length (openPositions s)) < maxConcurrentPositions cfg
                   \<Longrightarrow> P (openPosition cfg symbol0 candle sg s)"
  shows "P (enterLoop cfg symbol0 candle signals s)"
  using assms(1)
proof (induction signals arbitrary: s)
  case Nil
  then show ?case by simp
next
  case (Cons sg signals)
  show ?case
  proof (cases "real (length (openPositions s)) \<ge> maxConcurrentPositions cfg")
    case True
    then show ?thesis using Cons.prems by simp
  next
    case False
    then have "P (openPosition cfg symbol0 candle sg s)" using step[OF Cons.prems] by simp
    from Cons.IH[OF this] False show ?thesis by simp
  qed
qed

lemma checkEntries_rule:
  assumes "P s"
      and step: "\<And>s sg. P s \<Longrightarrow> real (length (openPositions s)) < maxConcurrentPositions cfg
                   \<Longrightarrow> P (openPosition cfg symbol0 (candles ! i) sg s)"
  shows "P (checkEntries cfg symbol0 candles i m s)"
  unfolding checkEntries_def Let_def
  using enterLoop_rule[of P s cfg symbol0 "candles ! i", OF assms(1) step] assms(1) by simp

lemma processSymbol_rule:
  assumes P: "P s"
      and ex: "\<And>s p symbol0 candles i m. P s \<Longrightarrow> p < length (openPositions s)
                  \<Longrightarrow> P (exitStep cfg symbol0 candles i m p s)"
      and en: "\<And>s sg symbol0 candle. P s \<Longrightarrow> real (length (openPositions s)) < maxConcurrentPositions cfg
                   \<Longrightarrow> P (openPosition cfg symbol0 candle sg s)"
  shows "P (processSymbol cfg mtf ts s sc)"
proof (cases "buildIndexMap (snd sc) ts")
  case None
  then show ?thesis using P by (simp add: processSymbol_def Let_def)
next
  case (Some i)
  have "P (exitLoop cfg (fst sc) (snd sc) i (mtf (fst sc)) (length (openPositions s)) s)"
    by (rule exitLoop_rule[of P, OF P _ ex]) simp_all
  then have "P (checkEntries cfg (fst sc) (snd sc) i (mtf (fst sc))
                  (exitLoop cfg (fst sc) (snd sc) i (mtf (fst sc)) (length (openPositions s)) s))"
    by (rule checkEntries_rule[of P]) (rule en)
  then show ?thesis using Some by (simp add: processSymbol_def Let_def)
qed

lemma foldl_rule:
  assumes "P s" and "\<And>s x. P s \<Longrightarrow> P (f s x)"
  shows "P (foldl f s xs)"
  using assms(1) by (induction xs arbitrary: s) (simp_all add: assms(2))

lemma recordEquity_rule:
  assumes P: "P s"
      and cc: "\<And>s a. P s \<Longrightarrow> P (s\<lparr>candleCount := a\<rparr>)"
      and eq: "\<And>s b c. P s \<Longrightarrow> P (s\<lparr>cur_equity := b, equityCurve := c\<rparr>)"
  shows "P (recordEquity cfg sdm lastTs ts s)"
  unfolding recordEquity_def Let_def using cc[OF P] eq[OF cc[OF P]] by simp

lemma processTimestamp_rule:
  assumes P: "P s"
      and ex: "\<And>s p symbol0 candles i m. P s \<Longrightarrow> p < length (openPositions s)
                  \<Longrightarrow> P (exitStep cfg symbol0 candles i m p s)"
      and en: "\<And>s sg symbol0 candle. P s \<Longrightarrow> real (length (openPositions s)) < maxConcurrentPositions cfg
                   \<Longrightarrow> P (openPosition cfg symbol0 candle sg s)"
      and cc: "\<And>s a. P s \<Longrightarrow> P (s\<lparr>candleCount := a\<rparr>)"
      and eq: "\<And>s b c. P s \<Longrightarrow> P (s\<lparr>cur_equity := b, equityCurve := c\<rparr>)"
  shows "P (processTimestamp cfg sdm mtf lastTs s ts)"
proof -
  have "P (foldl (processSymbol cfg mtf ts) s sdm)"
    by (rule foldl_rule[of P, OF P]) (rule processSymbol_rule[of P, OF _ ex en])
  then show ?thesis
    unfolding processTimestamp_def by (rule recordEquity_rule[of P, OF _ cc eq])
qed

lemma run_rule:
  assumes P: "P s"
      and ex: "\<And>s p symbol0 candles i m. P s \<Longrightarrow> p < length (openPositions s)
                  \<Longrightarrow> P (exitStep cfg symbol0 candles i m p s)"
      and en: "\<And>s sg symbol0 candle. P s \<Longrightarrow> real (length (openPositions s)) < maxConcurrentPositions cfg
                   \<Longrightarrow> P (openPosition cfg symbol0 candle sg s)"
      and cc: "\<And>s a. P s \<Longrightarrow> P (s\<lparr>candleCount := a\<rparr>)"
      and eq: "\<And>s b c. P s \<Longrightarrow> P (s\<lparr>cur_equity := b, equityCurve := c\<rparr>)"
  shows "P (foldl (processTimestamp cfg sdm mtf lastTs) s tss)"
  by (rule foldl_rule[of P, OF P]) (rule processTimestamp_rule[of P, OF _ ex en cc eq])

subsection \<open>Remaining size\<close>

lemma remainingSize_closePosition [simp]:
  "remainingSize (closePosition p x t r sl cm) = remainingSize p"
  by (simp add: closePosition_def remainingSize_def Let_def Position.defs)

lemma remainingSize_partialClose:
  "remainingSize (snd (partialClosePosition p x f t r sl cm)) = remainingSize p * (1 - f)"
  by (simp add: partialClosePosition_def remainingSize_def Let_def foldl_add_sum algebra_simps)

lemma remainingSize_trailingStopRule [simp]:
  "remainingSize (trailingStopRule c p) = remainingSize p"
  by (simp add: trailingStopRule_def remainingSize_def Let_def split: option.splits)

lemma takeProfit1Rule_remaining:
  assumes "0 \<le> remainingSize p"
  shows "case takeProfit1Rule c sl cm p of
           Closed t \<Rightarrow> 0 \<le> remainingSize t
         | Remains q \<Rightarrow> 0 \<le> remainingSize q"
proof -
  have h: "0 \<le> remainingSize (snd (partialClosePosition p (takeProfit p) (1 / 2) (timestamp c) r sl cm))" for r
    using assms by (simp add: remainingSize_partialClose)
  have upd: "remainingSize (q\<lparr>tp1Hit := True\<rparr>) = remainingSize q"
            "remainingSize (q\<lparr>stopLoss := a, breakeven := b\<rparr>) = remainingSize q" for q :: Position and a b
    by (simp_all add: remainingSize_def)
  show ?thesis using assms h
    by (simp add: takeProfit1Rule_def Let_def upd)
qed

lemma checkExits_remaining:
  assumes "0 \<le> remainingSize p"
  shows "case checkExits cfg candles i m p of
           Closed t \<Rightarrow> 0 \<le> remainingSize t
         | Remains q \<Rightarrow> 0 \<le> remainingSize q"
  using assms takeProfit1Rule_remaining[OF assms, of "candles ! i" "slippageRate cfg" "commissionRate cfg"]
  by (auto simp: checkExits_def Let_def stopLossRule_def takeProfit2Rule_def strategyExitRule_def
           split: option.splits Outcome.splits if_splits)

lemma sizeInv_exitStep:
  assumes "sizeInv s" "p < length (openPositions s)"
  shows "sizeInv (exitStep cfg symbol0 candles i m p s)"
proof -
  let ?pos = "openPositions s ! p"
  have pos: "0 \<le> remainingSize ?pos" using assms by (simp add: sizeInv_def)
  have sub1: "set (take p (openPositions s) @ drop (Suc p) (openPositions s)) \<subseteq> set (openPositions s)"
    using set_take_subset set_drop_subset by fastforce
  have sub2: "set ((openPositions s)[p := q]) \<subseteq> insert q (set (openPositions s))" for q
    by (rule set_update_subset_insert)
  show ?thesis
  proof (cases "checkExits cfg candles i m ?pos")
    case (Closed t)
    then have "0 \<le> remainingSize t" using checkExits_remaining[OF pos, of cfg candles i m] by simp
    then show ?thesis using assms(1) Closed sub1
      by (auto simp: exitStep_def Let_def sizeInv_def)
  next
    case (Remains q)
    then have "0 \<le> remainingSize q" using checkExits_remaining[OF pos, of cfg candles i m] by simp
    then show ?thesis using assms(1) Remains sub2[of q]
      by (auto simp: exitStep_def Let_def sizeInv_def)
  qed
qed

lemma sizeInv_openPosition:
  assumes "sizeInv s"
  shows "sizeInv (openPosition cfg symbol0 candle sg s)"
  using assms by (auto simp: openPosition_def Let_def sizeInv_def remainingSize_def)

lemma sizeInv_run:
  "sizeInv (foldl (processTimestamp cfg sdm mtf lastTs) (initialState cfg) tss)"
proof (rule run_rule[of sizeInv])
  show "sizeInv (initialState cfg)" by (simp add: sizeInv_def initialState_def)
qed (simp_all add: sizeInv_exitStep sizeInv_openPosition, simp_all add: sizeInv_def)

lemma forceCloseStep_set:
  "t \<in> set (forceCloseStep cfg sdm acc p) \<Longrightarrow>
     t \<in> set acc \<or> (\<exists>x tm r. t = closePosition p x tm r (slippageRate cfg) (commissionRate cfg))"
  by (auto simp: forceCloseStep_def Let_def split: option.splits if_splits)

lemma forceClose_foldl_set:
  "t \<in> set (foldl (forceCloseStep cfg sdm) acc ps) \<Longrightarrow>
     t \<in> set acc \<or> (\<exists>p \<in> set ps. \<exists>x tm r. t = closePosition p x tm r (slippageRate cfg) (commissionRate cfg))"
proof (induction ps arbitrary: acc)
  case Nil
  then show ?case by simp
next
  case (Cons p ps)
  from Cons.IH[of "forceCloseStep cfg sdm acc p"] Cons.prems
  have "t \<in> set (forceCloseStep cfg sdm acc p) \<or>
        (\<exists>p \<in> set ps. \<exists>x tm r. t = closePosition p x tm r (slippageRate cfg) (commissionRate cfg))"
    by simp
  then show ?case using forceCloseStep_set[of t cfg sdm acc p] by auto
qed

lemma forceClose_set:
  "t \<in> set (forceClose cfg sdm s) \<Longrightarrow>
      t \<in> set (completedTrades s) \<or> (\<exists>p \<in> set (openPositions s). \<exists>x tm r. t = closePosition p x tm r (slippageRate cfg) (commissionRate cfg))"
  unfolding forceClose_def by (rule forceClose_foldl_set)

lemma trades_runBacktest:
  "trades (fst (runBacktest env c0 cfg)) =
     forceClose cfg (fst (loadData env cfg)) (simulate cfg (fst (loadData env cfg)) (snd (loadData env cfg)))"
  by (simp add: runBacktest_def calculateResults_def Let_def)

subsection \<open>Number of open positions\<close>

lemma openPosition_length:
  "length (openPositions (openPosition cfg symbol0 candle sg s)) \<le> Suc (length (openPositions s))"
  by (simp add: openPosition_def Let_def)

lemma count_run:
  assumes cap: "maxConcurrentPositions cfg = real n"
  shows "length (openPositions (foldl (processTimestamp cfg sdm mtf lastTs) (initialState cfg) tss)) \<le> n"
proof (rule run_rule[of "\<lambda>s::State. length (openPositions s) \<le> n"])
  show "length (openPositions (initialState cfg)) \<le> n" by (simp add: initialState_def)
next
  fix s :: State and p symbol0 candles i m
  assume "length (openPositions s) \<le> n" "p < length (openPositions s)"
  then show "length (openPositions (exitStep cfg symbol0 candles i m p s)) \<le> n"
    using exitStep_length(2)[of p s cfg symbol0 candles i m] by simp
next
  fix s :: State and sg symbol0 candle
  assume "length (openPositions s) \<le> n" "real (length (openPositions s)) < maxConcurrentPositions cfg"
  then have "length (openPositions s) < n" using cap by simp
  then show "length (openPositions (openPosition cfg symbol0 candle sg s)) \<le> n"
    using openPosition_length[of cfg symbol0 candle sg s] by simp
qed simp_all

subsection \<open>Take-profit without a second level, and runs without data\<close>

lemma tp1_full_close_pnl:
  assumes "partialCloses p = []" "\<not> tp1Hit p" "takeProfit2 p = None" "side p = Long"
      and "high c \<ge> takeProfit p" and "takeProfit1Rule c sl cm p = Closed t"
  shows "pnl t = ((takeProfit p * (1 - sl) - entryPrice p) / entryPrice p) * pos_size p
                 - commission p - (3 / 2) * (pos_size p * cm)"
proof (cases "entryPrice p = 0")
  case True
  with assms show ?thesis
    by (auto simp: takeProfit1Rule_def partialClosePosition_def closePosition_def Let_def
          remainingSize_def partialPnl_def Position.defs Trade.defs)
next
  case False
  with assms show ?thesis
    by (auto simp: takeProfit1Rule_def partialClosePosition_def closePosition_def Let_def
          remainingSize_def partialPnl_def Position.defs Trade.defs field_simps)
qed

lemma loadMultiTf_dateNow [simp]:
  "loadMultiTf (env\<lparr>dateNow := t\<rparr>) cfg symbol0 w = loadMultiTf env cfg symbol0 w"
  by (simp add: loadMultiTf_def cong: option.case_cong if_cong)

lemma loadData_dateNow [simp]: "loadData (env\<lparr>dateNow := t\<rparr>) cfg = loadData env cfg"
  by (simp add: loadData_def cong: option.case_cong if_cong prod.case_cong)

lemma calculateResults_dateNow [simp]:
  "calculateResults (env\<lparr>dateNow := t\<rparr>) cfg trs curve = calculateResults env cfg trs curve"
  by (simp add: calculateResults_def monthlyReturnsOf_def symbolBreakdownOf_def)

lemma finalEquityCurve_dateNow:
  "tline \<noteq> [] \<Longrightarrow> finalEquityCurve (env\<lparr>dateNow := t\<rparr>) cfg tline trs curve = finalEquityCurve env cfg tline trs curve"
  by (simp add: finalEquityCurve_def Let_def)

lemma runBacktest_data:
  assumes "sortedTimestamps (fst (loadData env cfg)) \<noteq> []"
  shows "fst (runBacktest (env\<lparr>dateNow := t\<rparr>) c cfg) = fst (runBacktest env c' cfg)"
  using assms by (simp add: runBacktest_def Let_def finalEquityCurve_dateNow)

lemma simulate_noData:
  assumes "sortedTimestamps sdm = []"
  shows "simulate cfg sdm mtf = initialState cfg"
  using assms by (simp add: simulate_def)

lemma runBacktest_noData:
  assumes "sortedTimestamps (fst (loadData env cfg)) = []"
  shows "fst (runBacktest env c cfg) =
           calculateResults env cfg [] [\<lparr>ep_timestamp = dateNow env, equity = startingCapital cfg\<rparr>]"
  using assms
  by (simp add: runBacktest_def Let_def simulate_noData forceClose_def initialState_def
        finalEquityCurve_def)

lemma calculateResults_single_point:
  "calculateResults env cfg [] [\<lparr>ep_timestamp = t1, equity = e\<rparr>] =
     (calculateResults env cfg [] [\<lparr>ep_timestamp = t2, equity = e\<rparr>])
       \<lparr>r_equityCurve := [\<lparr>ep_timestamp = t1, equity = e\<rparr>]\<rparr>"
  by (simp add: calculateResults_def Let_def drawdownScan_def drawdownInit_def drawdownStep_def
        dd_peak_def sharpeRatioOf_def)

lemma loadData_none:
  assumes "\<forall>s \<in> set syms. loadCandles env s (timeframe cfg) = None \<or> loadCandles env s (timeframe cfg) = Some []"
  shows "foldl (\<lambda>(symbolDataMap, multiTfBySymbol) symbol0.
              case loadCandles env symbol0 (timeframe cfg) of
                None \<Rightarrow> (symbolDataMap, multiTfBySymbol)
              | Some rawCandles \<Rightarrow>
                  if rawCandles = [] then (symbolDataMap, multiTfBySymbol)
                  else (let withIndicators = calculateIndicators env rawCandles
                        in (AList.update symbol0 withIndicators symbolDataMap,
                            (case loadMultiTf env cfg symbol0 withIndicators of
                               None \<Rightarrow> multiTfBySymbol
                             | Some multiTf \<Rightarrow> multiTfBySymbol(symbol0 \<mapsto> multiTf)))))
       acc syms = acc"
  using assms by (induction syms arbitrary: acc) (auto split: prod.splits)

lemma loadData_noCandles:
  assumes "\<forall>s \<in> set (symbols cfg). loadCandles env s (timeframe cfg) = None \<or> loadCandles env s (timeframe cfg) = Some []"
  shows "loadData env cfg = ([], Map.empty)"
  unfolding loadData_def by (rule loadData_none[OF assms])

lemma runBacktest_noCandles:
  assumes "\<forall>s \<in> set (symbols cfg). loadCandles env s (timeframe cfg) = None \<or> loadCandles env s (timeframe cfg) = Some []"
  shows "totalTrades (fst (runBacktest env c0 cfg)) = 0"
    and "finalEquity (fst (runBacktest env c0 cfg)) = startingCapital cfg"
proof -
  have "sortedTimestamps (fst (loadData env cfg)) = []"
    by (simp add: loadData_noCandles[OF assms] sortedTimestamps_def)
  from runBacktest_noData[OF this, of c0]
  show "totalTrades (fst (runBacktest env c0 cfg)) = 0"
    and "finalEquity (fst (runBacktest env c0 cfg)) = startingCapital cfg"
    by (simp_all add: calculateResults_def Let_def)
qed

section \<open>Lemmas about the BTC engine\<close>

subsection \<open>Runs without data\<close>

lemma buildAltBtcCandles_none:
  assumes "loadCandles env s tf = None \<or> loadCandles env s tf = Some []"
  shows "buildAltBtcCandles env s tf = None"
  using assms by (auto simp: buildAltBtcCandles_def split: option.splits)

lemma buildAll_foldl_none:
  assumes "\<forall>s \<in> set syms. buildAltBtcCandles env s tf = None"
  shows "foldl (\<lambda>result s.
              case buildAltBtcCandles env s tf of
                None \<Rightarrow> result
              | Some candles \<Rightarrow>
                  if length candles > 0 then AList.update s candles result else result)
       acc syms = acc"
  using assms by (induction syms arbitrary: acc) auto

lemma buildAll_noCandles:
  assumes "\<forall>s \<in> set ALT_SYMBOLS. loadCandles env s tf = None \<or> loadCandles env s tf = Some []"
  shows "buildAllAltBtcCandles env tf = []"
  unfolding buildAllAltBtcCandles_def
  by (rule buildAll_foldl_none) (use assms buildAltBtcCandles_none in blast)

section \<open>The sample runs\<close>

lemma scenarioA_trades_length:
  "length (forceClose (sampleConfig scenarioA) (fst (loadData sampleEnv (sampleConfig scenarioA)))
             (simulate (sampleConfig scenarioA) (fst (loadData sampleEnv (sampleConfig scenarioA)))
                (snd (loadData sampleEnv (sampleConfig scenarioA))))) = 1"
  by code_simp

lemma alwaysLong_positions:
  "map symbol (openPositions (simulate (sampleConfig alwaysLong)
       (fst (loadData sampleEnv (sampleConfig alwaysLong)))
       (snd (loadData sampleEnv (sampleConfig alwaysLong)))))
   = [''BTCUSDT'', ''BTCUSDT'', ''BTCUSDT'']"
  by code_simp

lemma scenarioA_trade:
  "map (\<lambda>t. (entryPrice t, stopLoss t, takeProfit t, takeProfit2 t, pos_size t))
     (forceClose (sampleConfig scenarioA) (fst (loadData sampleEnv (sampleConfig scenarioA)))
             (simulate (sampleConfig scenarioA) (fst (loadData sampleEnv (sampleConfig scenarioA)))
                (snd (loadData sampleEnv (sampleConfig scenarioA)))))
   = [(100, 95, 110, None, 400)]"
  by code_simp

lemma scenarioA_pnl:
  "map (\<lambda>t. (exitReason t, exitPrice t, pnl t, specPnl t (6 / 10000)))
     (forceClose (sampleConfig scenarioA) (fst (loadData sampleEnv (sampleConfig scenarioA)))
             (simulate (sampleConfig scenarioA) (fst (loadData sampleEnv (sampleConfig scenarioA)))
                (snd (loadData sampleEnv (sampleConfig scenarioA)))))
   = [(''TP1 hit '' @ emdash @ '' full close'', 109967 / 1000, 9817 / 250, 9847 / 250)]"
  by code_simp

lemma sample_timeline:
  "sortedTimestamps (fst (loadData sampleEnv (sampleConfig scenarioA))) = [0, 3600000, 7200000]"
  by code_simp

lemma noData_timeline:
  "sortedTimestamps (fst (loadData sampleEnv noDataConfig)) = []"
  by code_simp

section \<open>Claims\<close>

subsection \<open>C7: peak tracking and range of the drawdown percentage\<close>

text \<open>
  Claim C7, as amended. For every equity curve whose equity values are all non-negative,
  the peak tracked by the drawdown scan never decreases from one point to the next, and the
  reported \<open>maxDrawdownPercent\<close> is finite and lies in the interval from 0 to 100.
\<close>

theorem C7_drawdown:
  assumes "\<forall>p \<in> set curve. 0 \<le> equity p"
  shows "(\<forall>k < length curve.
            dd_peak (foldl drawdownStep (drawdownInit (startingCapital cfg) curve) (take k curve))
          \<le> dd_peak (foldl drawdownStep (drawdownInit (startingCapital cfg) curve) (take (Suc k) curve)))
       \<and> inPercentRange (maxDrawdownPercent (calculateResults env cfg trs curve))"
proof (intro conjI allI impI)
  fix k assume "k < length curve"
  then show "dd_peak (foldl drawdownStep (drawdownInit (startingCapital cfg) curve) (take k curve))
          \<le> dd_peak (foldl drawdownStep (drawdownInit (startingCapital cfg) curve) (take (Suc k) curve))"
    by (simp add: take_Suc_conv_app_nth dd_peak_step)
next
  have "dd_ok (drawdownScan (startingCapital cfg) curve)"
    unfolding drawdownScan_def by (rule dd_ok_foldl[OF dd_ok_init assms])
  then show "inPercentRange (maxDrawdownPercent (calculateResults env cfg trs curve))"
    by (simp add: maxDrawdownPercent_calc dd_ok_def)
qed

text \<open>The theorem on the equity samples of Scenario E.\<close>

theorem C7_drawdown_witness:
  "list_all (\<lambda>p. 0 \<le> equity p) scenarioE
   \<and> dd_peak (foldl drawdownStep (drawdownInit 500 scenarioE) (take 2 scenarioE))
       \<le> dd_peak (foldl drawdownStep (drawdownInit 500 scenarioE) (take 3 scenarioE))
   \<and> inPercentRange (maxDrawdownPercent
         (calculateResults sampleEnv (sampleConfig scenarioA) [] scenarioE))"
proof -
  have h: "\<forall>p \<in> set scenarioE. 0 \<le> equity p"
    by (simp add: scenarioE_def)
  note c = C7_drawdown[OF h, of "sampleConfig scenarioA" sampleEnv "[]"]
  have len: "2 < length scenarioE"
    by (simp add: scenarioE_def)
  have sc: "startingCapital (sampleConfig scenarioA) = 500"
    by (simp add: sampleConfig_def)
  from c have a: "dd_peak (foldl drawdownStep (drawdownInit 500 scenarioE) (take 2 scenarioE))
       \<le> dd_peak (foldl drawdownStep (drawdownInit 500 scenarioE) (take (Suc 2) scenarioE))"
    using len unfolding sc by blast
  have b: "inPercentRange (maxDrawdownPercent
         (calculateResults sampleEnv (sampleConfig scenarioA) [] scenarioE))"
    using c by (rule conjunct2)
  have s3: "Suc 2 = 3" by simp
  show ?thesis using h a b unfolding s3 by (simp add: list_all_iff)
qed

text \<open>
  The claim as stated, for every equity curve, fails on a curve that falls below zero: the
  drawdown from the peak 100 to \<open>-50\<close> is 150 percent of the peak.
\<close>

theorem C7_counterexample:
  "maxDrawdownPercent (calculateResults sampleEnv (sampleConfig scenarioA) [] negativeCurve) = Fin 150
   \<and> \<not> inPercentRange (maxDrawdownPercent
           (calculateResults sampleEnv (sampleConfig scenarioA) [] negativeCurve))"
  by (simp add: maxDrawdownPercent_calc drawdownScan_def drawdownInit_def drawdownStep_def
        dd_peak_def percent_of_def js_div_def inPercentRange_def negativeCurve_def Let_def)

subsection \<open>C5: remaining size of every returned trade\<close>

text \<open>
  Claim C5. For every trade returned by the USD engine, the remaining size just before its
  final close (the size that \<open>closePosition\<close> closes) is not negative, and the sizes of its
  partial closes plus that remaining size add up to the original size of the position.
\<close>

theorem C5_remaining_size:
  "\<forall>t \<in> set (trades (fst (runBacktest env c0 cfg))).
      0 \<le> remainingSize t \<and>
      foldl (\<lambda>sum pc. sum + pc_size pc) 0 (partialCloses t) + remainingSize t = pos_size t"
proof
  fix t assume t: "t \<in> set (trades (fst (runBacktest env c0 cfg)))"
  let ?sdm = "fst (loadData env cfg)"
  let ?s = "simulate cfg ?sdm (snd (loadData env cfg))"
  have inv: "sizeInv ?s" unfolding simulate_def Let_def by (rule sizeInv_run)
  from t forceClose_set[of t cfg ?sdm ?s]
  have "t \<in> set (completedTrades ?s) \<or>
        (\<exists>p \<in> set (openPositions ?s). \<exists>x tm r. t = closePosition p x tm r (slippageRate cfg) (commissionRate cfg))"
    by (simp add: trades_runBacktest)
  then have "0 \<le> remainingSize t" using inv by (auto simp: sizeInv_def)
  moreover have "foldl (\<lambda>sum pc. sum + pc_size pc) 0 (partialCloses t) + remainingSize t = pos_size t"
    by (simp add: remainingSize_def)
  ultimately show "0 \<le> remainingSize t \<and>
      foldl (\<lambda>sum pc. sum + pc_size pc) 0 (partialCloses t) + remainingSize t = pos_size t" by simp
qed

text \<open>The theorem on the single trade of Scenario A.\<close>

theorem C5_remaining_size_witness:
  "trades (fst (runBacktest sampleEnv 0 (sampleConfig scenarioA))) \<noteq> []
   \<and> 0 \<le> remainingSize (hd (trades (fst (runBacktest sampleEnv 0 (sampleConfig scenarioA)))))
   \<and> foldl (\<lambda>sum pc. sum + pc_size pc) 0
        (partialCloses (hd (trades (fst (runBacktest sampleEnv 0 (sampleConfig scenarioA))))))
      + remainingSize (hd (trades (fst (runBacktest sampleEnv 0 (sampleConfig scenarioA)))))
      = pos_size (hd (trades (fst (runBacktest sampleEnv 0 (sampleConfig scenarioA)))))"
proof -
  let ?R = "fst (runBacktest sampleEnv 0 (sampleConfig scenarioA))"
  have ne: "trades ?R \<noteq> []"
    using scenarioA_trades_length unfolding trades_runBacktest by (metis length_0_conv zero_neq_one)
  then have "hd (trades ?R) \<in> set (trades ?R)"
    by simp
  from C5_remaining_size[of sampleEnv 0 "sampleConfig scenarioA", rule_format, OF this] ne
  show ?thesis by simp
qed

subsection \<open>C1: what the Entry Evaluator of the USD engine rejects\<close>

text \<open>
  Claim C1, as amended. The Entry Evaluator of the USD engine does not look at the symbols
  of the open positions: it rejects an entry signal when the number of open positions has
  reached the concurrency cap. For a cap that is a whole number, in every state reached
  after any number of timestamps the total number of open positions is at most the cap.
\<close>

theorem C1_concurrency_cap:
  assumes "maxConcurrentPositions cfg = real n"
  shows "length (openPositions (foldl (processTimestamp cfg sdm mtf lastTs) (initialState cfg) tss)) \<le> n
       \<and> (maxConcurrentPositions cfg \<le> real (length (openPositions s))
            \<longrightarrow> checkEntries cfg symbol0 candles i m s = s)"
  using count_run[OF assms] by (simp add: checkEntries_def)

text \<open>The theorem on the run of the strategy that signals a long entry on every candle.\<close>

theorem C1_concurrency_cap_witness:
  "maxConcurrentPositions (sampleConfig alwaysLong) = real 3
   \<and> length (openPositions (simulate (sampleConfig alwaysLong)
       (fst (loadData sampleEnv (sampleConfig alwaysLong)))
       (snd (loadData sampleEnv (sampleConfig alwaysLong))))) \<le> 3"
proof -
  have h: "maxConcurrentPositions (sampleConfig alwaysLong) = real 3"
    by (simp add: sampleConfig_def)
  from C1_concurrency_cap[OF h] h show ?thesis
    by (simp add: simulate_def Let_def)
qed

text \<open>
  The claim as stated fails on that run: the strategy signals an entry for the one symbol
  on each of the three candles, none is rejected, and the ledger ends with three open
  positions of the same symbol.
\<close>

theorem C1_counterexample:
  "map symbol (openPositions (simulate (sampleConfig alwaysLong)
       (fst (loadData sampleEnv (sampleConfig alwaysLong)))
       (snd (loadData sampleEnv (sampleConfig alwaysLong)))))
   = [''BTCUSDT'', ''BTCUSDT'', ''BTCUSDT'']
   \<and> \<not> distinct (map symbol (openPositions (simulate (sampleConfig alwaysLong)
       (fst (loadData sampleEnv (sampleConfig alwaysLong)))
       (snd (loadData sampleEnv (sampleConfig alwaysLong))))))"
  by (simp add: alwaysLong_positions)

subsection \<open>C2: profit and loss of Scenario A\<close>

text \<open>
  Claim C2, evaluated on the code. Scenario A (a long position entered at 100 with stop 95
  and take-profit 110, no second level, closed when a later candle touches 110) gives one
  trade with exit reason \<open>TP1 hit, full close\<close>. Its \<open>pnl\<close> is 39.268, whereas the gross
  gain at the slippage-adjusted exit minus commission charged once per leg is 39.388: the
  commission of the partial close is subtracted twice (lemma \<open>tp1_full_close_pnl\<close> gives the
  general form).
\<close>

theorem C2_scenarioA_pnl:
  "map (\<lambda>t. (entryPrice t, stopLoss t, takeProfit t, takeProfit2 t, pos_size t))
     (trades (fst (runBacktest sampleEnv 0 (sampleConfig scenarioA))))
   = [(100, 95, 110, None, 400)]
   \<and> map (\<lambda>t. (exitReason t, exitPrice t, pnl t, specPnl t (6 / 10000)))
     (trades (fst (runBacktest sampleEnv 0 (sampleConfig scenarioA))))
   = [(''TP1 hit '' @ emdash @ '' full close'', 109967 / 1000, 9817 / 250, 9847 / 250)]"
  unfolding trades_runBacktest using scenarioA_trade scenarioA_pnl by simp

subsection \<open>C4: what the result depends on\<close>

text \<open>
  Claim C4, as amended. Two runs of the USD engine on identical data, configuration and
  strategy, at any two wall-clock times and with any values left in the position counter
  by earlier runs, return identical results when at least one candle loads. When no candle
  loads the two results agree in every field except the timestamp of the single equity
  point, which is the wall-clock time of the run.
\<close>

theorem C4_determinism:
  "(sortedTimestamps (fst (loadData env cfg)) \<noteq> [] \<longrightarrow>
      fst (runBacktest (env\<lparr>dateNow := t1\<rparr>) c1 cfg) = fst (runBacktest (env\<lparr>dateNow := t2\<rparr>) c2 cfg))
   \<and> (sortedTimestamps (fst (loadData env cfg)) = [] \<longrightarrow>
      fst (runBacktest (env\<lparr>dateNow := t1\<rparr>) c1 cfg) =
        (fst (runBacktest (env\<lparr>dateNow := t2\<rparr>) c2 cfg))
           \<lparr>r_equityCurve := [\<lparr>ep_timestamp = t1, equity = startingCapital cfg\<rparr>]\<rparr>)"
proof (intro conjI impI)
  assume h: "sortedTimestamps (fst (loadData env cfg)) \<noteq> []"
  show "fst (runBacktest (env\<lparr>dateNow := t1\<rparr>) c1 cfg) = fst (runBacktest (env\<lparr>dateNow := t2\<rparr>) c2 cfg)"
    using runBacktest_data[OF h, of t1 c1 c1] runBacktest_data[OF h, of t2 c2 c1] by simp
next
  assume h: "sortedTimestamps (fst (loadData env cfg)) = []"
  have a: "fst (runBacktest (env\<lparr>dateNow := t\<rparr>) c cfg) =
           calculateResults env cfg [] [\<lparr>ep_timestamp = t, equity = startingCapital cfg\<rparr>]" for t c
    using runBacktest_noData[of "env\<lparr>dateNow := t\<rparr>" cfg c] h by simp
  show "fst (runBacktest (env\<lparr>dateNow := t1\<rparr>) c1 cfg) =
        (fst (runBacktest (env\<lparr>dateNow := t2\<rparr>) c2 cfg))
           \<lparr>r_equityCurve := [\<lparr>ep_timestamp = t1, equity = startingCapital cfg\<rparr>]\<rparr>"
    unfolding a by (rule calculateResults_single_point)
qed

text \<open>The theorem on the sample data and on the configuration without data.\<close>

theorem C4_determinism_witness:
  "sortedTimestamps (fst (loadData sampleEnv (sampleConfig scenarioA))) = [0, 3600000, 7200000]
   \<and> fst (runBacktest (sampleEnv\<lparr>dateNow := 1\<rparr>) 0 (sampleConfig scenarioA))
       = fst (runBacktest (sampleEnv\<lparr>dateNow := 2\<rparr>) 5 (sampleConfig scenarioA))
   \<and> sortedTimestamps (fst (loadData sampleEnv noDataConfig)) = []
   \<and> fst (runBacktest (sampleEnv\<lparr>dateNow := 1\<rparr>) 0 noDataConfig)
       = (fst (runBacktest (sampleEnv\<lparr>dateNow := 2\<rparr>) 5 noDataConfig))
            \<lparr>r_equityCurve := [\<lparr>ep_timestamp = 1, equity = 500\<rparr>]\<rparr>"
proof -
  have sc: "startingCapital noDataConfig = 500"
    by (simp add: noDataConfig_def sampleConfig_def)
  have ne: "sortedTimestamps (fst (loadData sampleEnv (sampleConfig scenarioA))) \<noteq> []"
    by (simp add: sample_timeline)
  from C4_determinism[of sampleEnv "sampleConfig scenarioA" 1 0 2 5] ne
    C4_determinism[of sampleEnv noDataConfig 1 0 2 5] noData_timeline sample_timeline sc
  show ?thesis by simp
qed

text \<open>
  The claim as stated includes the case where no candle loads; there two runs at different
  wall-clock times return different results.
\<close>

theorem C4_counterexample:
  "fst (runBacktest (sampleEnv\<lparr>dateNow := 1\<rparr>) 0 noDataConfig)
     \<noteq> fst (runBacktest (sampleEnv\<lparr>dateNow := 2\<rparr>) 0 noDataConfig)"
proof
  assume "fst (runBacktest (sampleEnv\<lparr>dateNow := 1\<rparr>) 0 noDataConfig)
     = fst (runBacktest (sampleEnv\<lparr>dateNow := 2\<rparr>) 0 noDataConfig)"
  then have "r_equityCurve (fst (runBacktest (sampleEnv\<lparr>dateNow := 1\<rparr>) 0 noDataConfig))
     = r_equityCurve (fst (runBacktest (sampleEnv\<lparr>dateNow := 2\<rparr>) 0 noDataConfig))"
    by simp
  moreover have "r_equityCurve (fst (runBacktest (sampleEnv\<lparr>dateNow := t\<rparr>) 0 noDataConfig))
     = [\<lparr>ep_timestamp = t, equity = startingCapital noDataConfig\<rparr>]" for t
    using runBacktest_noData[of "sampleEnv\<lparr>dateNow := t\<rparr>" noDataConfig 0] noData_timeline
    by (simp add: calculateResults_def Let_def)
  ultimately show False by simp
qed

subsection \<open>C3: the stop-loss rule of the BTC engine\<close>

text \<open>
  Claim C3, as amended. In the BTC variant, for every open position, whatever its
  leverage, the stop-loss rule performs a full close (reason \<open>stop_loss\<close>) when the current
  ALT/BTC ratio has dropped at least 15% from the entry ratio; when it has dropped less and
  no later rule of the cascade fires, the position is left as it is.
\<close>

theorem C3_stop_loss:
  "(close (altCandles ! i) \<le> entryRatio pos * (1 - 15 / 100) \<longrightarrow>
      btcExitStep strat cr altCandles i trend7 trend1 ts s pos
        = fullExit strat cr pos (close (altCandles ! i)) ts ''stop_loss'' s)
   \<and> (\<not> close (altCandles ! i) \<le> entryRatio pos * (1 - 15 / 100)
        \<and> trend1 \<le> 2
        \<and> (b_tp1Hit pos \<or> close (altCandles ! i) < entryRatio pos * (1 + 30 / 100))
        \<and> (\<not> b_tp1Hit pos \<or> close (altCandles ! i) < entryRatio pos * (1 + 50 / 100))
        \<and> ts - b_entryTime pos < 14 * 86400000
        \<and> \<not> bx_exit (bs_shouldExit strat pos altCandles i trend7) \<longrightarrow>
      btcExitStep strat cr altCandles i trend7 trend1 ts s pos = s)"
  by (simp add: btcExitStep_def Let_def STOP_LOSS_PCT_def DOMINANCE_TREND_THRESHOLD_def
        TP1_PCT_def TP2_PCT_def MAX_HOLD_MS_def)

text \<open>
  The theorem on a position of leverage 2 entered at ratio 1: stopped at ratio 0.84, left
  open at ratio 0.88.
\<close>

theorem C3_stop_loss_witness:
  "map t_exitReason (b_completedTrades
      (btcExitStep (enterFirst 2) FUTURES_COMMISSION_RATE [mkAlt ''ETHUSDT'' 3600000 (84 / 100)] 0 0 0
         3600000 sampleLedger samplePosition)) = [''stop_loss'']
   \<and> b_openPositions
      (btcExitStep (enterFirst 2) FUTURES_COMMISSION_RATE [mkAlt ''ETHUSDT'' 3600000 (84 / 100)] 0 0 0
         3600000 sampleLedger samplePosition) = []
   \<and> btcExitStep (enterFirst 2) FUTURES_COMMISSION_RATE [mkAlt ''ETHUSDT'' 3600000 (88 / 100)] 0 0 0
         3600000 sampleLedger samplePosition = sampleLedger"
proof -
  have a: "close ([mkAlt ''ETHUSDT'' 3600000 (84 / 100)] ! 0) \<le> entryRatio samplePosition * (1 - 15 / 100)"
    by (simp add: mkAlt_def samplePosition_def)
  have b: "\<not> close ([mkAlt ''ETHUSDT'' 3600000 (88 / 100)] ! 0) \<le> entryRatio samplePosition * (1 - 15 / 100)
        \<and> (0::real) \<le> 2
        \<and> (b_tp1Hit samplePosition \<or> close ([mkAlt ''ETHUSDT'' 3600000 (88 / 100)] ! 0) < entryRatio samplePosition * (1 + 30 / 100))
        \<and> (\<not> b_tp1Hit samplePosition \<or> close ([mkAlt ''ETHUSDT'' 3600000 (88 / 100)] ! 0) < entryRatio samplePosition * (1 + 50 / 100))
        \<and> 3600000 - b_entryTime samplePosition < 14 * 86400000
        \<and> \<not> bx_exit (bs_shouldExit (enterFirst 2) samplePosition [mkAlt ''ETHUSDT'' 3600000 (88 / 100)] 0 0)"
    by (simp add: mkAlt_def samplePosition_def enterFirst_def noBtcExit_def)
  have c: "btcExitStep (enterFirst 2) FUTURES_COMMISSION_RATE [mkAlt ''ETHUSDT'' 3600000 (84 / 100)] 0 0 0
         3600000 sampleLedger samplePosition
       = fullExit (enterFirst 2) FUTURES_COMMISSION_RATE samplePosition
           (close ([mkAlt ''ETHUSDT'' 3600000 (84 / 100)] ! 0)) 3600000 ''stop_loss'' sampleLedger"
    using C3_stop_loss[of "[mkAlt ''ETHUSDT'' 3600000 (84 / 100)]" 0 samplePosition "enterFirst 2"
             FUTURES_COMMISSION_RATE 0 0 3600000 sampleLedger] a by blast
  have d: "btcExitStep (enterFirst 2) FUTURES_COMMISSION_RATE [mkAlt ''ETHUSDT'' 3600000 (88 / 100)] 0 0 0
         3600000 sampleLedger samplePosition = sampleLedger"
    using C3_stop_loss[of "[mkAlt ''ETHUSDT'' 3600000 (88 / 100)]" 0 samplePosition "enterFirst 2"
             FUTURES_COMMISSION_RATE 0 0 3600000 sampleLedger] b by blast
  show ?thesis unfolding c d
    by (simp add: fullExit_def closeBtcPosition_def Let_def sampleLedger_def samplePosition_def
          btcInitialState_def)
qed

text \<open>
  The claim as stated, a stop at a 10% drop for leverage above 1, fails on the run of a
  strategy of leverage 2 that never asks for an exit: the ratio drops by 12% on the second
  candle and the position stays open until the end of the data.
\<close>

theorem C3_counterexample:
  "map (\<lambda>t. (t_leverage t, t_entryRatio t, t_exitTime t, t_exitRatio t, t_exitReason t))
     (br_trades (runBtcBacktestOn (enterFirst 2) dropTwelve))
   = [(2, 1, 7200000, 88 / 100, ''backtest_end'')]"
  by code_simp

subsection \<open>C8: degenerate entries\<close>

text \<open>
  Claim C8, as amended. In the USD variant a candidate entry whose stop distance is zero
  is rejected: no position is opened and no trade is created. In the BTC variant an entry
  at ratio zero is not rejected; the guard is in \<open>calculateBtcReturn\<close>, which returns no
  BTC for a position whose entry ratio is zero.
\<close>

theorem C8_degenerate_entry:
  "(\<bar>(if sd = Long then close candle * (1 + slippageRate cfg)
       else close candle * (1 - slippageRate cfg)) - es_stopLoss sg\<bar> = 0 \<longrightarrow>
      openPosition cfg symbol0 candle (sg, sd) s = s)
   \<and> calculateBtcReturn allocated 0 exitRatio0 lev cr = 0"
  by (simp add: openPosition_def calculateBtcReturn_def Let_def)

text \<open>The theorem on a long signal whose stop is the slipped entry price.\<close>

theorem C8_degenerate_entry_witness:
  "\<bar>close flatCandle * (1 + slippageRate (sampleConfig scenarioA)) - es_stopLoss stopAtEntry\<bar> = 0
   \<and> openPosition (sampleConfig scenarioA) ''BTCUSDT'' flatCandle (stopAtEntry, Long)
        (initialState (sampleConfig scenarioA)) = initialState (sampleConfig scenarioA)
   \<and> calculateBtcReturn (1 / 100) 0 (1 / 2) 1 SPOT_COMMISSION_RATE = 0"
proof -
  have h: "\<bar>(if Long = Long then close flatCandle * (1 + slippageRate (sampleConfig scenarioA))
       else close flatCandle * (1 - slippageRate (sampleConfig scenarioA))) - es_stopLoss stopAtEntry\<bar> = 0"
    by (simp add: flatCandle_def stopAtEntry_def sampleConfig_def)
  from C8_degenerate_entry[of Long flatCandle "sampleConfig scenarioA" stopAtEntry "''BTCUSDT''"
        "initialState (sampleConfig scenarioA)" "1 / 100" "1 / 2" 1 SPOT_COMMISSION_RATE] h
  show ?thesis by simp
qed

text \<open>
  The claim as stated fails in the BTC variant: on candles of ratio zero the entry is
  taken, and the position is closed on the next candle as a trade that loses its whole
  allocation.
\<close>

theorem C8_counterexample:
  "map (\<lambda>t. (t_entryRatio t, t_btcAllocated t, t_btcPnl t, t_exitReason t))
     (br_trades (runBtcBacktestOn (enterFirst 1) zeroRatio))
   = [(0, 1 / 100, - 1 / 100, ''stop_loss'')]"
  by code_simp

subsection \<open>C9: no candles at all\<close>

text \<open>
  Claim C9. When the provider has no candles (\<open>null\<close> or an empty array) for every
  configured symbol, the USD engine returns a result with \<open>totalTrades = 0\<close> and
  \<open>finalEquity = startingCapital\<close>, and the BTC engine returns a result with
  \<open>totalTrades = 0\<close> and \<open>finalBtc = startingBtc\<close>. Both are values of total functions:
  no branch of either engine raises.
\<close>

theorem C9_no_candles:
  "((\<forall>s \<in> set (symbols cfg). loadCandles env s (timeframe cfg) = None
                               \<or> loadCandles env s (timeframe cfg) = Some []) \<longrightarrow>
      totalTrades (fst (runBacktest env c0 cfg)) = 0
      \<and> finalEquity (fst (runBacktest env c0 cfg)) = startingCapital cfg)
   \<and> ((\<forall>s \<in> set ALT_SYMBOLS. loadCandles env s tf = None \<or> loadCandles env s tf = Some []) \<longrightarrow>
      br_totalTrades (runBtcBacktest env strat tf) = 0
      \<and> finalBtc (runBtcBacktest env strat tf) = startingBtc (runBtcBacktest env strat tf)
      \<and> finalBtc (runBtcBacktest env strat tf) = STARTING_BTC)"
proof (intro conjI impI)
  assume h: "\<forall>s \<in> set ALT_SYMBOLS. loadCandles env s tf = None \<or> loadCandles env s tf = Some []"
  have e: "runBtcBacktest env strat tf = emptyResult (bs_name strat)"
    by (simp add: runBtcBacktest_def runBtcBacktestOn_def buildAll_noCandles[OF h])
  show "br_totalTrades (runBtcBacktest env strat tf) = 0"
    and "finalBtc (runBtcBacktest env strat tf) = startingBtc (runBtcBacktest env strat tf)"
    and "finalBtc (runBtcBacktest env strat tf) = STARTING_BTC"
    by (simp_all add: e emptyResult_def)
qed (simp_all add: runBacktest_noCandles)

text \<open>The theorem on a provider without candles for the timeframe asked.\<close>

theorem C9_no_candles_witness:
  "list_all (\<lambda>s. loadCandles sampleEnv s (timeframe noDataConfig) = None) (symbols noDataConfig)
   \<and> totalTrades (fst (runBacktest sampleEnv 0 noDataConfig)) = 0
   \<and> finalEquity (fst (runBacktest sampleEnv 0 noDataConfig)) = 500
   \<and> list_all (\<lambda>s. loadCandles sampleEnv s ''1h'' = None) ALT_SYMBOLS
   \<and> br_totalTrades (runBtcBacktest sampleEnv (enterFirst 1) ''1h'') = 0
   \<and> finalBtc (runBtcBacktest sampleEnv (enterFirst 1) ''1h'') = 5 / 100"
proof -
  have a: "\<forall>s \<in> set (symbols noDataConfig). loadCandles sampleEnv s (timeframe noDataConfig) = None"
    by (simp add: noDataConfig_def sampleConfig_def sampleEnv_def)
  have b: "\<forall>s \<in> set ALT_SYMBOLS. loadCandles sampleEnv s ''1h'' = None"
    by (simp add: ALT_SYMBOLS_def sampleEnv_def)
  have sc: "startingCapital noDataConfig = 500"
    by (simp add: noDataConfig_def sampleConfig_def)
  from C9_no_candles[of noDataConfig sampleEnv 0 "''1h''" "enterFirst 1"] a b sc
  show ?thesis by (simp add: list_all_iff STARTING_BTC_def)
qed

end
